theory Spec2Isabelle
  imports Main
begin

section \<open>Data model\<close>

text \<open>
  The garage-system API keeps its state in MongoDB collections reached through Mongoose
  models. A collection is a list of documents; every document carries its \<open>_id\<close>.
  An ObjectId is a natural number, a \<open>Date\<close> its number of milliseconds since the epoch.
  Request handlers answer with an HTTP status; a handler that ends in an error status
  has aborted its transaction, so the store it leaves is the one it was given.
\<close>

type_synonym objectId = nat
type_synonym date = int

text \<open>An error response: the HTTP status and the \<open>message\<close> of the JSON body.\<close>

type_synonym error = "nat \<times> string"

datatype role = Admin | CarOwner | GarageOwner

text \<open>\<open>req.user\<close> as \<open>protect\<close> sets it.\<close>

record principal =
  pr_id :: objectId
  pr_role :: role

subsection \<open>Booking (models/booking.js)\<close>

datatype booking_status = Pending | Approved | InProgress | Completed | Cancelled | Rejected

fun status_name :: "booking_status \<Rightarrow> string" where
  "status_name Pending = ''pending''"
| "status_name Approved = ''approved''"
| "status_name InProgress = ''in_progress''"
| "status_name Completed = ''completed''"
| "status_name Cancelled = ''cancelled''"
| "status_name Rejected = ''rejected''"

text \<open>
  The schema's \<open>enum\<close> validator on \<open>status\<close>: a string that names no member of the
  enumeration does not pass validation.
\<close>

definition status_of_name :: "string \<Rightarrow> booking_status option" where
  "status_of_name n =
     List.find (\<lambda>st. status_name st = n)
       [Pending, Approved, InProgress, Completed, Cancelled, Rejected]"

record timeSlot =
  ts_start :: string
  ts_end :: string

record vehicleInfo =
  vi_make :: string
  vi_model :: string
  vi_year :: "int option"
  vi_licensePlate :: string

text \<open>One entry of the status history the controllers push.\<close>

record status_change =
  sc_status :: string
  sc_changedBy :: objectId
  sc_reason :: string
  sc_changedAt :: date

text \<open>
  A booking document as the controllers see it in memory. The fields down to
  \<open>b_isDeleted\<close> are the paths of \<open>bookingSchema\<close>. The remaining ones are properties
  that the controllers read or assign although the schema does not declare them;
  \<open>None\<close> is JavaScript's \<open>undefined\<close>.
\<close>

record booking =
  b_id :: objectId
  b_carOwner :: objectId
  b_garage :: objectId
  b_service :: objectId
  b_bookingDate :: date
  b_timeSlot :: timeSlot
  b_status :: booking_status
  b_vehicleInfo :: vehicleInfo
  b_notes :: string
  b_attachments :: "string list"
  b_isDeleted :: bool
  b_statusHistory :: "status_change list option"
  b_isPaid :: "bool option"
  b_payment :: "objectId option"
  b_deletedAt :: "date option"
  b_deletedBy :: "objectId option"

text \<open>The paths \<open>bookingSchema\<close> declares (models/booking.js, lines 3 to 47).\<close>

definition bookingSchema :: "string list" where
  "bookingSchema =
     [''carOwner'', ''garage'', ''service'', ''bookingDate'', ''timeSlot'', ''status'',
      ''vehicleInfo'', ''notes'', ''attachments'', ''isDeleted'']"

text \<open>
  The schema is built with Mongoose's default \<open>strict\<close> option: \<open>save\<close> and
  \<open>findByIdAndUpdate\<close> write the declared paths only, and a value held under any other
  name is not stored.
\<close>

definition strict :: "string list \<Rightarrow> string \<Rightarrow> 'a option \<Rightarrow> 'a option" where
  "strict schema path v = (if path \<in> set schema then v else None)"

definition booking_persisted :: "booking \<Rightarrow> booking" where
  "booking_persisted d =
     d\<lparr>b_statusHistory := strict bookingSchema ''statusHistory'' (b_statusHistory d),
       b_isPaid := strict bookingSchema ''isPaid'' (b_isPaid d),
       b_payment := strict bookingSchema ''payment'' (b_payment d),
       b_deletedAt := strict bookingSchema ''deletedAt'' (b_deletedAt d),
       b_deletedBy := strict bookingSchema ''deletedBy'' (b_deletedBy d)\<rparr>"

subsection \<open>Garage, service, review, payment, user\<close>

datatype garage_status = GPending | GActive | GSuspended

record businessDay =
  bd_open :: "string option"
  bd_close :: "string option"
  bd_closed :: bool

record businessHours =
  monday :: businessDay
  tuesday :: businessDay
  wednesday :: businessDay
  thursday :: businessDay
  friday :: businessDay
  saturday :: businessDay
  sunday :: businessDay

text \<open>
  The counters are JavaScript numbers; they are integers here, exact as long as they
  stay below \<open>2 ^ 53\<close>. \<open>averageRating\<close>, a floating-point mean, is left out.
\<close>

record stats =
  totalBookings :: int
  completedBookings :: int
  totalReviews :: int

record garage =
  g_id :: objectId
  g_owner :: objectId
  g_status :: garage_status
  g_businessHours :: businessHours
  g_stats :: stats
  g_isActive :: bool
  g_isDeleted :: bool
  g_creationPayment :: "objectId option"
  g_paidAt :: "date option"

record service =
  s_id :: objectId
  s_garage :: objectId
  s_duration :: int
  s_isAvailable :: bool
  s_isDeleted :: bool

record review =
  r_id :: objectId
  r_carOwner :: objectId
  r_garage :: objectId
  r_booking :: objectId
  r_rating :: int
  r_title :: string
  r_comment :: string
  r_images :: "string list"
  r_isVerified :: bool
  r_isDeleted :: bool

datatype payment_type = GarageCreation | BookingPayment | Subscription | Other
datatype payment_status = PPending | PCompleted | PFailed | PRefunded

text \<open>The body of a Chapa notification, as far as the handler reads it.\<close>

record chapa_payload =
  cp_tx_ref :: string
  cp_status :: string

record payment =
  p_id :: objectId
  p_user :: objectId
  p_paymentType :: payment_type
  p_garageCreation_garage :: "objectId option"
  p_booking :: "objectId option"
  p_status :: payment_status
  p_transactionId :: "string option"
  p_provider_response :: "chapa_payload option"
  p_paidAt :: "date option"

record garageCreationPayment =
  gcp_payment :: objectId
  gcp_status :: string
  gcp_createdAt :: date

record user =
  u_id :: objectId
  u_role :: role
  u_canCreateGarage :: bool
  u_garageCreationPayments :: "garageCreationPayment list"
  u_isDeleted :: bool

record store =
  garages :: "garage list"
  services :: "service list"
  bookings :: "booking list"
  reviews :: "review list"
  payments :: "payment list"
  users :: "user list"

section \<open>Collections\<close>

text \<open>
  \<open>findById\<close> returns the first document with the given \<open>_id\<close>; a query that names
  an \<open>_id\<close> together with other conditions looks the document up and then tests it.
  \<open>updateOne\<close> rewrites the first document that matches, which is what \<open>doc.save()\<close>
  and \<open>findByIdAndUpdate\<close> do to the document with the given \<open>_id\<close>; with no match
  nothing is written.
\<close>

definition findById :: "('a \<Rightarrow> objectId) \<Rightarrow> 'a list \<Rightarrow> objectId \<Rightarrow> 'a option" where
  "findById ident xs i = List.find (\<lambda>d. ident d = i) xs"

definition findByIdWhere ::
  "('a \<Rightarrow> objectId) \<Rightarrow> 'a list \<Rightarrow> objectId \<Rightarrow> ('a \<Rightarrow> bool) \<Rightarrow> 'a option" where
  "findByIdWhere ident xs i P =
     (case findById ident xs i of
        None \<Rightarrow> None
      | Some d \<Rightarrow> if P d then Some d else None)"

fun updateOne :: "('a \<Rightarrow> bool) \<Rightarrow> ('a \<Rightarrow> 'a) \<Rightarrow> 'a list \<Rightarrow> 'a list" where
  "updateOne P f [] = []"
| "updateOne P f (x # xs) = (if P x then f x # xs else x # updateOne P f xs)"

text \<open>A new ObjectId differs from every \<open>_id\<close> of the collection.\<close>

definition new_id :: "objectId list \<Rightarrow> objectId" where
  "new_id ids = Suc (fold max ids 0)"

section \<open>JavaScript strings\<close>

text \<open>
  \<open>a < b\<close> on two strings compares them code unit by code unit; \<open>a >= b\<close> is its
  negation. A comparison with \<open>undefined\<close> is false.
\<close>

fun js_lt :: "string \<Rightarrow> string \<Rightarrow> bool" where
  "js_lt [] [] = False"
| "js_lt [] (y # ys) = True"
| "js_lt (x # xs) [] = False"
| "js_lt (x # xs) (y # ys) =
     (if (of_char x :: nat) < of_char y then True
      else if (of_char y :: nat) < of_char x then False
      else js_lt xs ys)"

definition js_ge :: "string \<Rightarrow> string option \<Rightarrow> bool" where
  "js_ge a b = (case b of None \<Rightarrow> False | Some b' \<Rightarrow> \<not> js_lt a b')"

definition js_le :: "string \<Rightarrow> string option \<Rightarrow> bool" where
  "js_le a b = (case b of None \<Rightarrow> False | Some b' \<Rightarrow> \<not> js_lt b' a)"

text \<open>\<open>s.split(c)\<close> for a one-character separator: never empty.\<close>

fun split_on :: "char \<Rightarrow> string \<Rightarrow> string list" where
  "split_on c [] = [[]]"
| "split_on c (x # xs) =
     (if x = c then [] # split_on c xs
      else (case split_on c xs of
              [] \<Rightarrow> [[x]]
            | p # ps \<Rightarrow> (x # p) # ps))"

text \<open>\<open>a[i]\<close>: \<open>undefined\<close> out of range.\<close>

fun index_opt :: "'a list \<Rightarrow> nat \<Rightarrow> 'a option" where
  "index_opt [] i = None"
| "index_opt (x # xs) 0 = Some x"
| "index_opt (x # xs) (Suc i) = index_opt xs i"

text \<open>\<open>s.trim()\<close>, for the white space of ASCII: tab, line feed, vertical tab, form feed,
  carriage return and space.\<close>

definition is_space :: "char \<Rightarrow> bool" where
  "is_space c = ((of_char c :: nat) \<in> {9, 10, 11, 12, 13, 32})"

definition js_trim :: "string \<Rightarrow> string" where
  "js_trim s = rev (dropWhile is_space (rev (dropWhile is_space s)))"

text \<open>
  \<open>parseInt(s)\<close> with no radix: leading white space, an optional sign, then the longest
  run of digits (hexadecimal after \<open>0x\<close>); \<open>None\<close> is \<open>NaN\<close>, also for \<open>undefined\<close>.
\<close>

definition digit_of :: "nat \<Rightarrow> char \<Rightarrow> nat option" where
  "digit_of radix c =
     (let n = (of_char c :: nat);
          v = (if 48 \<le> n \<and> n \<le> 57 then Some (n - 48)
               else if 97 \<le> n \<and> n \<le> 122 then Some (n - 87)
               else if 65 \<le> n \<and> n \<le> 90 then Some (n - 55)
               else None)
      in case v of None \<Rightarrow> None | Some d \<Rightarrow> if d < radix then Some d else None)"

fun parse_digits :: "nat \<Rightarrow> string \<Rightarrow> nat option \<Rightarrow> nat option" where
  "parse_digits radix [] acc = acc"
| "parse_digits radix (c # cs) acc =
     (case digit_of radix c of
        None \<Rightarrow> acc
      | Some d \<Rightarrow> parse_digits radix cs (Some ((case acc of None \<Rightarrow> 0 | Some a \<Rightarrow> a) * radix + d)))"

definition parse_unsigned :: "string \<Rightarrow> nat option" where
  "parse_unsigned s =
     (case s of
        c0 # cx # rest \<Rightarrow>
          if c0 = CHR ''0'' \<and> (cx = CHR ''x'' \<or> cx = CHR ''X'')
          then parse_digits 16 rest None
          else parse_digits 10 s None
      | _ \<Rightarrow> parse_digits 10 s None)"

definition parseInt :: "string option \<Rightarrow> int option" where
  "parseInt v =
     (case v of
        None \<Rightarrow> None
      | Some s \<Rightarrow>
          (case dropWhile is_space s of
             [] \<Rightarrow> None
           | c # cs \<Rightarrow>
               if c = CHR ''-'' then map_option (\<lambda>n. - int n) (parse_unsigned cs)
               else if c = CHR ''+'' then map_option int (parse_unsigned cs)
               else map_option int (parse_unsigned (c # cs))))"

section \<open>Availability (booking controller, checkAvailability)\<close>

text \<open>
  The weekday of a date, lower-cased as \<open>toLocaleString('en-us', {weekday: 'long'})\<close>
  gives it; the server's time zone is taken to be UTC. 1 January 1970 was a Thursday.
\<close>

definition dayOfWeek :: "date \<Rightarrow> string" where
  "dayOfWeek d =
     [''sunday'', ''monday'', ''tuesday'', ''wednesday'', ''thursday'', ''friday'', ''saturday'']
       ! nat ((d div 86400000 + 4) mod 7)"

text \<open>\<open>garage.businessHours[dayOfWeek]\<close>.\<close>

definition businessDay_of :: "businessHours \<Rightarrow> string \<Rightarrow> businessDay option" where
  "businessDay_of bh k =
     (if k = ''monday'' then Some (monday bh)
      else if k = ''tuesday'' then Some (tuesday bh)
      else if k = ''wednesday'' then Some (wednesday bh)
      else if k = ''thursday'' then Some (thursday bh)
      else if k = ''friday'' then Some (friday bh)
      else if k = ''saturday'' then Some (saturday bh)
      else if k = ''sunday'' then Some (sunday bh)
      else None)"

text \<open>
  The query both \<open>createBooking\<close> and \<open>checkAvailability\<close> run: a booking of the same
  garage, date, start and end whose status is neither cancelled nor rejected and which
  is not soft-deleted.
\<close>

definition occupies :: "objectId \<Rightarrow> date \<Rightarrow> timeSlot \<Rightarrow> booking \<Rightarrow> bool" where
  "occupies gid d ts b \<longleftrightarrow>
     b_garage b = gid \<and> b_bookingDate b = d \<and>
     ts_start (b_timeSlot b) = ts_start ts \<and> ts_end (b_timeSlot b) = ts_end ts \<and>
     b_status b \<notin> {Cancelled, Rejected} \<and> \<not> b_isDeleted b"

definition existingBooking :: "store \<Rightarrow> objectId \<Rightarrow> date \<Rightarrow> timeSlot \<Rightarrow> booking option" where
  "existingBooking s gid d ts = List.find (occupies gid d ts) (bookings s)"

record avail_req =
  ar_garageId :: "objectId option"
  ar_serviceId :: "objectId option"
  ar_date :: "date option"
  ar_timeSlot :: "timeSlot option"

text \<open>The \<open>data\<close> of a 200 answer: \<open>available\<close> with its \<open>reason\<close> or \<open>message\<close>.\<close>

datatype availability = Unavailable string | Available string

definition minutes_of :: "string \<Rightarrow> int option" where
  "minutes_of t =
     (let parts = split_on CHR '':'' t
      in case (parseInt (index_opt parts 0), parseInt (index_opt parts 1)) of
           (Some h, Some m) \<Rightarrow> Some (h * 60 + m)
         | _ \<Rightarrow> None)"

definition slotDuration :: "timeSlot \<Rightarrow> int option" where
  "slotDuration ts =
     (case (minutes_of (ts_end ts), minutes_of (ts_start ts)) of
        (Some e, Some b) \<Rightarrow> Some (e - b)
      | _ \<Rightarrow> None)"

text \<open>The decimal rendering of a number inside a template string.\<close>

fun show_nat :: "nat \<Rightarrow> string" where
  "show_nat n = (if n < 10 then [char_of (48 + n)] else show_nat (n div 10) @ [char_of (48 + n mod 10)])"

declare show_nat.simps [simp del]

definition show_int :: "int \<Rightarrow> string" where
  "show_int i = (if i < 0 then CHR ''-'' # show_nat (nat (- i)) else show_nat (nat i))"

definition checkAvailability :: "store \<Rightarrow> avail_req \<Rightarrow> error + availability" where
  "checkAvailability s req =
     (case (ar_garageId req, ar_date req, ar_timeSlot req) of
        (Some garageId, Some d, Some ts) \<Rightarrow>
          (case findByIdWhere g_id (garages s) garageId (\<lambda>g. \<not> g_isDeleted g) of
             None \<Rightarrow> Inl (404, ''Garage not found'')
           | Some garage \<Rightarrow>
               (case businessDay_of (g_businessHours garage) (dayOfWeek d) of
                  None \<Rightarrow> Inr (Unavailable ''Garage is closed on this day'')
                | Some businessDay \<Rightarrow>
                    if bd_closed businessDay
                    then Inr (Unavailable ''Garage is closed on this day'')
                    else if \<not> (js_ge (ts_start ts) (bd_open businessDay) \<and>
                                js_le (ts_end ts) (bd_close businessDay))
                    then Inr (Unavailable ''Time slot is outside business hours'')
                    else if existingBooking s garageId d ts \<noteq> None
                    then Inr (Unavailable ''Time slot already booked'')
                    else
                      (case ar_serviceId req of
                         None \<Rightarrow> Inr (Available ''Time slot is available'')
                       | Some serviceId \<Rightarrow>
                           (case findById s_id (services s) serviceId of
                              None \<Rightarrow> Inr (Available ''Time slot is available'')
                            | Some service \<Rightarrow>
                                (case slotDuration ts of
                                   None \<Rightarrow> Inr (Available ''Time slot is available'')
                                 | Some dur \<Rightarrow>
                                     if dur < s_duration service
                                     then Inr (Unavailable
                                            (''Time slot duration ('' @ show_int dur @
                                             ''min) is less than service duration ('' @
                                             show_int (s_duration service) @ ''min)''))
                                     else Inr (Available ''Time slot is available''))))))
      | _ \<Rightarrow> Inl (400, ''Missing required fields''))"

section \<open>Booking lifecycle (booking controller)\<close>

text \<open>
  Every handler takes the store and returns its answer together with the store it
  leaves. A handler that answers with an error has aborted its transaction and leaves
  the store it was given.
\<close>

subsection \<open>Saving documents\<close>

text \<open>
  \<open>garageSchema.pre('save')\<close>: opening and closing times are trimmed and \<open>isActive\<close>
  follows \<open>status\<close>. The hook also passes each counter through \<open>parseInt(x) || 0\<close>,
  which returns an integer as it is.
\<close>

definition trim_day :: "businessDay \<Rightarrow> businessDay" where
  "trim_day d = d\<lparr>bd_open := map_option js_trim (bd_open d),
                  bd_close := map_option js_trim (bd_close d)\<rparr>"

definition garage_pre_save :: "garage \<Rightarrow> garage" where
  "garage_pre_save g =
     g\<lparr>g_businessHours :=
         \<lparr>monday = trim_day (monday (g_businessHours g)),
          tuesday = trim_day (tuesday (g_businessHours g)),
          wednesday = trim_day (wednesday (g_businessHours g)),
          thursday = trim_day (thursday (g_businessHours g)),
          friday = trim_day (friday (g_businessHours g)),
          saturday = trim_day (saturday (g_businessHours g)),
          sunday = trim_day (sunday (g_businessHours g))\<rparr>,
       g_isActive := (g_status g = GActive)\<rparr>"

definition garage_save :: "store \<Rightarrow> garage \<Rightarrow> store" where
  "garage_save s g =
     s\<lparr>garages := updateOne (\<lambda>x. g_id x = g_id g) (\<lambda>_. garage_pre_save g) (garages s)\<rparr>"

definition booking_save :: "store \<Rightarrow> booking \<Rightarrow> store" where
  "booking_save s b =
     s\<lparr>bookings := updateOne (\<lambda>x. b_id x = b_id b) (\<lambda>_. booking_persisted b) (bookings s)\<rparr>"

subsection \<open>createBooking\<close>

record create_req =
  cr_garageId :: "objectId option"
  cr_serviceId :: "objectId option"
  cr_bookingDate :: "date option"
  cr_timeSlot :: "timeSlot option"
  cr_vehicleInfo :: "vehicleInfo option"
  cr_notes :: "string option"

text \<open>
  The \<open>required\<close> validators of \<open>bookingSchema\<close> that a request can fail: a required
  string must not be empty.
\<close>

definition booking_valid :: "booking \<Rightarrow> bool" where
  "booking_valid b \<longleftrightarrow>
     ts_start (b_timeSlot b) \<noteq> [] \<and> ts_end (b_timeSlot b) \<noteq> [] \<and>
     vi_make (b_vehicleInfo b) \<noteq> [] \<and> vi_model (b_vehicleInfo b) \<noteq> [] \<and>
     vi_licensePlate (b_vehicleInfo b) \<noteq> []"

definition createBooking :: "store \<Rightarrow> principal \<Rightarrow> create_req \<Rightarrow> (error + booking) \<times> store" where
  "createBooking s u req =
     (case (cr_garageId req, cr_serviceId req, cr_bookingDate req, cr_timeSlot req,
            cr_vehicleInfo req) of
        (Some garageId, Some serviceId, Some bookingDate, Some ts, Some vinfo) \<Rightarrow>
          (case findByIdWhere g_id (garages s) garageId
                  (\<lambda>g. \<not> g_isDeleted g \<and> g_status g = GActive) of
             None \<Rightarrow> (Inl (404, ''Garage not found or not active''), s)
           | Some garage \<Rightarrow>
               (case findByIdWhere s_id (services s) serviceId
                       (\<lambda>sv. s_garage sv = garageId \<and> \<not> s_isDeleted sv \<and> s_isAvailable sv) of
                  None \<Rightarrow> (Inl (404, ''Service not found or not available''), s)
                | Some service \<Rightarrow>
                    if existingBooking s garageId bookingDate ts \<noteq> None
                    then (Inl (400, ''Time slot already booked''), s)
                    else
                      let booking =
                            \<lparr>b_id = new_id (map b_id (bookings s)),
                             b_carOwner = pr_id u,
                             b_garage = garageId,
                             b_service = serviceId,
                             b_bookingDate = bookingDate,
                             b_timeSlot = ts,
                             b_status = Pending,
                             b_vehicleInfo = vinfo,
                             b_notes = (case cr_notes req of None \<Rightarrow> [] | Some n \<Rightarrow> n),
                             b_attachments = [],
                             b_isDeleted = False,
                             b_statusHistory = None,
                             b_isPaid = None,
                             b_payment = None,
                             b_deletedAt = None,
                             b_deletedBy = None\<rparr>
                      in if \<not> booking_valid booking
                         then (Inl (500, ''Error creating booking''), s)
                         else
                           let s1 = s\<lparr>bookings := bookings s @ [booking]\<rparr>;
                               s2 = garage_save s1
                                      (garage\<lparr>g_stats := (g_stats garage)
                                         \<lparr>totalBookings := totalBookings (g_stats garage) + 1\<rparr>\<rparr>)
                           in (Inr booking, s2)))
      | _ \<Rightarrow> (Inl (400, ''Missing required fields''), s))"

subsection \<open>updateBookingStatus\<close>

fun validTransitions :: "booking_status \<Rightarrow> string list" where
  "validTransitions Pending = [''approved'', ''rejected'', ''cancelled'']"
| "validTransitions Approved = [''in_progress'', ''cancelled'']"
| "validTransitions InProgress = [''completed'', ''cancelled'']"
| "validTransitions Completed = []"
| "validTransitions Cancelled = []"
| "validTransitions Rejected = []"

text \<open>
  \<open>booking.statusHistory = booking.statusHistory || []\<close> followed by \<open>push\<close>, on the
  document in memory.
\<close>

definition push_history :: "booking \<Rightarrow> status_change \<Rightarrow> booking" where
  "push_history b e =
     b\<lparr>b_statusHistory := Some ((case b_statusHistory b of None \<Rightarrow> [] | Some h \<Rightarrow> h) @ [e])\<rparr>"

text \<open>\<open>x || d\<close> for a string that may be missing: missing and empty are both falsy.\<close>

definition or_default :: "string option \<Rightarrow> string \<Rightarrow> string" where
  "or_default v d = (case v of None \<Rightarrow> d | Some x \<Rightarrow> if x = [] then d else x)"

text \<open>
  Reaching \<open>completed\<close>: the garage is read again by its \<open>_id\<close> and its counter of
  completed bookings goes up by one; \<open>None\<close> when there is no such garage, where the
  source reads a property of \<open>null\<close> and throws.
\<close>

definition complete_stats :: "store \<Rightarrow> objectId \<Rightarrow> store option" where
  "complete_stats s gid =
     (case findById g_id (garages s) gid of
        None \<Rightarrow> None
      | Some garage \<Rightarrow>
          Some (garage_save s
                  (garage\<lparr>g_stats := (g_stats garage)
                     \<lparr>completedBookings := completedBookings (g_stats garage) + 1\<rparr>\<rparr>)))"

text \<open>
  The booking id is \<open>None\<close> when the route parameter is not a well-formed ObjectId.
  \<open>now\<close> is the value of \<open>new Date()\<close>. The answer carries the booking as it is read
  back from the store.
\<close>

definition updateBookingStatus ::
  "date \<Rightarrow> store \<Rightarrow> principal \<Rightarrow> objectId option \<Rightarrow> string option \<Rightarrow> string option
     \<Rightarrow> (error + booking) \<times> store" where
  "updateBookingStatus now s u ident status_req reason =
     (case ident of
        None \<Rightarrow> (Inl (400, ''Invalid booking ID''), s)
      | Some i \<Rightarrow>
          if status_req = None \<or> status_req = Some []
          then (Inl (400, ''Status is required''), s)
          else
            let status = (case status_req of None \<Rightarrow> [] | Some x \<Rightarrow> x) in
            (case findById b_id (bookings s) i of
               None \<Rightarrow> (Inl (404, ''Booking not found''), s)
             | Some booking \<Rightarrow>
                 if b_isDeleted booking then (Inl (404, ''Booking not found''), s)
                 else
                   (case findById g_id (garages s) (b_garage booking) of
                      None \<Rightarrow> (Inl (500, ''Error updating booking status''), s)
                    | Some garage \<Rightarrow>
                        if \<not> (g_owner garage = pr_id u) \<and> \<not> (pr_role u = Admin)
                        then (Inl (403, ''Not authorized to update this booking''), s)
                        else if status_name (b_status booking) = status
                        then (Inr booking, s)
                        else if status \<notin> set (validTransitions (b_status booking))
                        then (Inl (400, ''Cannot transition from '' @
                                         status_name (b_status booking) @ '' to '' @ status), s)
                        else
                          (case status_of_name status of
                             None \<Rightarrow> (Inl (500, ''Error updating booking status''), s)
                           | Some st \<Rightarrow>
                               let booking1 =
                                     push_history (booking\<lparr>b_status := st\<rparr>)
                                       \<lparr>sc_status = status,
                                        sc_changedBy = pr_id u,
                                        sc_reason = or_default reason (''Status changed to '' @ status),
                                        sc_changedAt = now\<rparr>;
                                   s1 = (if status = ''completed''
                                         then complete_stats s (g_id garage)
                                         else Some s)
                               in (case s1 of
                                     None \<Rightarrow> (Inl (500, ''Error updating booking status''), s)
                                   | Some s1' \<Rightarrow>
                                       let s2 = booking_save s1' booking1
                                       in (case findById b_id (bookings s2) i of
                                             None \<Rightarrow> (Inl (500, ''Error updating booking status''), s)
                                           | Some updatedBooking \<Rightarrow> (Inr updatedBooking, s2)))))))"

subsection \<open>cancelBooking\<close>

definition cancellableStatuses :: "booking_status list" where
  "cancellableStatuses = [Pending, Approved]"

definition cancelBooking ::
  "date \<Rightarrow> store \<Rightarrow> principal \<Rightarrow> objectId option \<Rightarrow> string option \<Rightarrow> (error + booking) \<times> store" where
  "cancelBooking now s u ident reason =
     (case ident of
        None \<Rightarrow> (Inl (400, ''Invalid booking ID''), s)
      | Some i \<Rightarrow>
          (case findByIdWhere b_id (bookings s) i
                  (\<lambda>b. b_carOwner b = pr_id u \<and> \<not> b_isDeleted b) of
             None \<Rightarrow> (Inl (404, ''Booking not found''), s)
           | Some booking \<Rightarrow>
               if b_status booking \<notin> set cancellableStatuses
               then (Inl (400, ''Cannot cancel booking with status: '' @
                                status_name (b_status booking)), s)
               else
                 let booking1 =
                       push_history (booking\<lparr>b_status := Cancelled\<rparr>)
                         \<lparr>sc_status = ''cancelled'',
                          sc_changedBy = pr_id u,
                          sc_reason = or_default reason ''Cancelled by customer'',
                          sc_changedAt = now\<rparr>
                 in (Inr (booking_persisted booking1), booking_save s booking1)))"

subsection \<open>deleteBooking\<close>

definition deleteBooking ::
  "date \<Rightarrow> store \<Rightarrow> principal \<Rightarrow> objectId option \<Rightarrow> (error + unit) \<times> store" where
  "deleteBooking now s u ident =
     (case ident of
        None \<Rightarrow> (Inl (400, ''Invalid booking ID''), s)
      | Some i \<Rightarrow>
          (case findById b_id (bookings s) i of
             None \<Rightarrow> (Inl (404, ''Booking not found''), s)
           | Some booking \<Rightarrow>
               if b_isDeleted booking then (Inl (404, ''Booking not found''), s)
               else if \<not> (pr_role u = Admin \<or> b_carOwner booking = pr_id u \<or>
                           (pr_role u = GarageOwner \<and>
                            findByIdWhere g_id (garages s) (b_garage booking)
                              (\<lambda>g. g_owner g = pr_id u) \<noteq> None))
               then (Inl (403, ''Not authorized to delete this booking''), s)
               else
                 let booking1 = booking\<lparr>b_isDeleted := True, b_deletedAt := Some now,
                                        b_deletedBy := Some (pr_id u)\<rparr>;
                     s1 = booking_save s booking1
                 in if b_status booking1 = Completed
                    then (case findById g_id (garages s1) (b_garage booking1) of
                            None \<Rightarrow> (Inl (500, ''Error deleting booking''), s)
                          | Some garage \<Rightarrow>
                              (Inr (),
                               garage_save s1
                                 (garage\<lparr>g_stats := (g_stats garage)
                                    \<lparr>completedBookings :=
                                       max 0 (completedBookings (g_stats garage) - 1)\<rparr>\<rparr>)))
                    else (Inr (), s1)))"

section \<open>Payments (payment controller)\<close>

text \<open>
  \<open>User.findByIdAndUpdate(user, {canCreateGarage: true, $push: {garageCreationPayments:
  {payment, status: 'completed'}}})\<close>, run by the webhook and by the payment model's
  \<open>post('save')\<close> hook.
\<close>

definition user_grant :: "date \<Rightarrow> store \<Rightarrow> objectId \<Rightarrow> objectId \<Rightarrow> store" where
  "user_grant now s uid pid =
     s\<lparr>users :=
         updateOne (\<lambda>x. u_id x = uid)
           (\<lambda>x. x\<lparr>u_canCreateGarage := True,
                   u_garageCreationPayments :=
                     u_garageCreationPayments x @
                       [\<lparr>gcp_payment = pid, gcp_status = ''completed'', gcp_createdAt = now\<rparr>]\<rparr>)
           (users s)\<rparr>"

text \<open>
  \<open>payment.save()\<close>, with the hook of the payment model: after a payment of type
  garage creation is saved in status completed, the user is granted garage creation.
\<close>

definition payment_save :: "date \<Rightarrow> store \<Rightarrow> payment \<Rightarrow> store" where
  "payment_save now s p =
     (let s1 = s\<lparr>payments := updateOne (\<lambda>x. p_id x = p_id p) (\<lambda>_. p) (payments s)\<rparr>
      in if p_paymentType p = GarageCreation \<and> p_status p = PCompleted
         then user_grant now s1 (p_user p) (p_id p)
         else s1)"

text \<open>
  An update of a booking through \<open>findByIdAndUpdate\<close>: a path of the update that the
  schema does not declare is dropped and the stored value stays.
\<close>

definition strict_update :: "string list \<Rightarrow> string \<Rightarrow> 'a option \<Rightarrow> 'a \<Rightarrow> 'a option" where
  "strict_update schema path old v = (if path \<in> set schema then Some v else old)"

record webhook_req =
  wr_payload :: chapa_payload
  wr_signature :: "string option"

text \<open>
  \<open>hmac\<close> is the HMAC-SHA256 of the payload under the webhook secret, in hexadecimal.
\<close>

definition handleChapaWebhook ::
  "(chapa_payload \<Rightarrow> string) \<Rightarrow> date \<Rightarrow> store \<Rightarrow> webhook_req \<Rightarrow> (error + unit) \<times> store" where
  "handleChapaWebhook hmac now s req =
     (let payload = wr_payload req in
      if Some (hmac payload) \<noteq> wr_signature req
      then (Inl (401, ''Invalid signature''), s)
      else
        (case List.find (\<lambda>p. p_transactionId p = Some (cp_tx_ref payload)) (payments s) of
           None \<Rightarrow> (Inl (404, ''Payment not found''), s)
         | Some payment0 \<Rightarrow>
             let success = (cp_status payload = ''success'');
                 payment =
                   payment0\<lparr>p_status := (if success then PCompleted else PFailed),
                            p_provider_response := Some payload,
                            p_paidAt := (if success then Some now else p_paidAt payment0)\<rparr>;
                 s1 = payment_save now s payment
             in if success
                then
                  if p_paymentType payment = GarageCreation
                  then
                    let s2 = user_grant now s1 (p_user payment) (p_id payment)
                    in (case p_garageCreation_garage payment of
                          None \<Rightarrow> (Inr (), s2)
                        | Some gid \<Rightarrow>
                            (Inr (),
                             s2\<lparr>garages :=
                                 updateOne (\<lambda>g. g_id g = gid)
                                   (\<lambda>g. g\<lparr>g_creationPayment := Some (p_id payment),
                                           g_paidAt := Some now,
                                           g_status := GPending\<rparr>)
                                   (garages s2)\<rparr>))
                  else
                    (case (p_paymentType payment, p_booking payment) of
                       (BookingPayment, Some bid) \<Rightarrow>
                         (Inr (),
                          s1\<lparr>bookings :=
                              updateOne (\<lambda>b. b_id b = bid)
                                (\<lambda>b. b\<lparr>b_isPaid := strict_update bookingSchema ''isPaid''
                                                     (b_isPaid b) True,
                                        b_payment := strict_update bookingSchema ''payment''
                                                       (b_payment b) (p_id payment),
                                        b_status := Approved\<rparr>)
                                (bookings s1)\<rparr>)
                     | _ \<Rightarrow> (Inr (), s1))
                else (Inr (), s1)))"

text \<open>
  Manual verification. \<open>chapa\<close> is the provider's answer to the verify-by-reference
  call: the error to relay when the call fails, the reported status otherwise.
\<close>

definition verifyPayment ::
  "(string \<Rightarrow> error + string) \<Rightarrow> date \<Rightarrow> store \<Rightarrow> string \<Rightarrow> (error + payment) \<times> store" where
  "verifyPayment chapa now s tx_ref =
     (case chapa tx_ref of
        Inl e \<Rightarrow> (Inl e, s)
      | Inr chapa_status \<Rightarrow>
          (case List.find (\<lambda>p. p_transactionId p = Some tx_ref) (payments s) of
             None \<Rightarrow> (Inl (404, ''Payment not found''), s)
           | Some payment0 \<Rightarrow>
               if chapa_status = ''success'' \<and> p_status payment0 \<noteq> PCompleted
               then
                 let payment = payment0\<lparr>p_status := PCompleted, p_paidAt := Some now\<rparr>;
                     s1 = payment_save now s payment
                 in if p_paymentType payment = GarageCreation
                    then (Inr payment,
                          s1\<lparr>users := updateOne (\<lambda>x. u_id x = p_user payment)
                                         (\<lambda>x. x\<lparr>u_canCreateGarage := True\<rparr>) (users s1)\<rparr>)
                    else
                      (case (p_paymentType payment, p_booking payment) of
                         (BookingPayment, Some bid) \<Rightarrow>
                           (Inr payment,
                            s1\<lparr>bookings :=
                                updateOne (\<lambda>b. b_id b = bid)
                                  (\<lambda>b. b\<lparr>b_isPaid := strict_update bookingSchema ''isPaid''
                                                       (b_isPaid b) True\<rparr>)
                                  (bookings s1)\<rparr>)
                       | _ \<Rightarrow> (Inr payment, s1))
               else if chapa_status = ''failed'' \<and> p_status payment0 = PPending
               then
                 let payment = payment0\<lparr>p_status := PFailed\<rparr>
                 in (Inr payment, payment_save now s payment)
               else (Inr payment0, s)))"

section \<open>Reviews (review controller, createReview)\<close>

record review_req =
  rr_garageId :: "objectId option"
  rr_bookingId :: "objectId option"
  rr_rating :: "int option"
  rr_title :: "string option"
  rr_comment :: "string option"
  rr_images :: "string list option"





section \<open>Routing (auth middleware, booking routes)\<close>

text \<open>
  \<open>protect\<close> reads the bearer token of the \<open>Authorization\<close> header. \<open>jwt_verify\<close>
  stands for \<open>jwt.verify\<close> under the server's secret: the user id of a token it
  accepts, \<open>None\<close> when it throws.
\<close>

definition bearer_token :: "string option \<Rightarrow> string option" where
  "bearer_token h =
     (case h of
        None \<Rightarrow> None
      | Some a \<Rightarrow>
          if take 6 a = ''Bearer''
          then (case index_opt (split_on CHR '' '' a) 1 of
                  None \<Rightarrow> None
                | Some t \<Rightarrow> if t = [] then None else Some t)
          else None)"

definition protect ::
  "(string \<Rightarrow> objectId option) \<Rightarrow> user list \<Rightarrow> string option \<Rightarrow> error + principal" where
  "protect jwt_verify us authorization =
     (case bearer_token authorization of
        None \<Rightarrow> Inl (401, ''Not authorized, no token'')
      | Some token \<Rightarrow>
          (case jwt_verify token of
             None \<Rightarrow> Inl (401, ''Not authorized, token failed'')
           | Some uid \<Rightarrow>
               (case findById u_id us uid of
                  None \<Rightarrow> Inl (401, ''User not found'')
                | Some usr \<Rightarrow> Inr \<lparr>pr_id = u_id usr, pr_role = u_role usr\<rparr>)))"

fun role_name :: "role \<Rightarrow> string" where
  "role_name Admin = ''admin''"
| "role_name CarOwner = ''car_owner''"
| "role_name GarageOwner = ''garage_owner''"

definition authorize :: "role list \<Rightarrow> principal option \<Rightarrow> error + principal" where
  "authorize roles usr =
     (case usr of
        None \<Rightarrow> Inl (401, ''Not authorized'')
      | Some u \<Rightarrow>
          if pr_role u \<notin> set roles
          then Inl (403, ''Role '' @ role_name (pr_role u) @
                         '' is not authorized to access this route'')
          else Inr u)"

datatype http_method = GET | POST | PUT | DELETE

text \<open>A route path is a list of segments: a literal, or a parameter such as \<open>:id\<close>.\<close>

datatype segment = Lit string | Param

datatype middleware = Protect | Authorize "role list"

datatype handler =
    GetAllBookings | CreateBooking | GetBookingById | UpdateBookingStatus | CancelBooking
  | GetBookingTimeline | CheckAvailability | GetBookingsByDateRange | UploadAttachments
  | DeleteAttachment | GetBookingStats | DeleteBooking

datatype layer = Use middleware | Route http_method "segment list" "middleware list" handler

text \<open>The router of routes/booking.routes.js, layer by layer in the order of the file.\<close>

definition booking_routes :: "layer list" where
  "booking_routes =
     [Use Protect,
      Route GET [] [] GetAllBookings,
      Route POST [] [Authorize [CarOwner]] CreateBooking,
      Route GET [Param] [] GetBookingById,
      Route PUT [Param, Lit ''status''] [Authorize [GarageOwner, Admin]] UpdateBookingStatus,
      Route PUT [Param, Lit ''cancel''] [Authorize [CarOwner]] CancelBooking,
      Route GET [Param, Lit ''timeline''] [] GetBookingTimeline,
      Route POST [Lit ''check-availability''] [] CheckAvailability,
      Route GET [Lit ''calendar'', Lit ''range''] [] GetBookingsByDateRange,
      Route POST [Param, Lit ''attachments''] [] UploadAttachments,
      Route DELETE [Param, Lit ''attachments'', Param] [] DeleteAttachment,
      Route GET [Lit ''stats'', Lit ''analytics''] [Authorize [Admin, GarageOwner]] GetBookingStats,
      Route DELETE [Param] [] DeleteBooking]"

record request =
  rq_method :: http_method
  rq_path :: "string list"
  rq_authorization :: "string option"

fun matches :: "segment list \<Rightarrow> string list \<Rightarrow> bool" where
  "matches [] [] = True"
| "matches (Lit l # ps) (x # xs) = (l = x \<and> matches ps xs)"
| "matches (Param # ps) (x # xs) = (x \<noteq> [] \<and> matches ps xs)"
| "matches _ _ = False"

definition run_middleware ::
  "(string \<Rightarrow> objectId option) \<Rightarrow> user list \<Rightarrow> middleware \<Rightarrow> request \<Rightarrow> principal option
     \<Rightarrow> error + principal option" where
  "run_middleware jwt_verify us m req usr =
     (case m of
        Protect \<Rightarrow> map_sum id Some (protect jwt_verify us (rq_authorization req))
      | Authorize roles \<Rightarrow> map_sum id Some (authorize roles usr))"

fun run_middlewares ::
  "(string \<Rightarrow> objectId option) \<Rightarrow> user list \<Rightarrow> middleware list \<Rightarrow> request \<Rightarrow> principal option
     \<Rightarrow> error + principal option" where
  "run_middlewares jwt_verify us [] req usr = Inr usr"
| "run_middlewares jwt_verify us (m # ms) req usr =
     (case run_middleware jwt_verify us m req usr of
        Inl e \<Rightarrow> Inl e
      | Inr usr' \<Rightarrow> run_middlewares jwt_verify us ms req usr')"

text \<open>
  Express walks the layers in order. A \<open>use\<close> layer runs for every request; a route
  runs its middlewares and then its handler when method and path match. The result is
  the error a middleware answers with, or the handler the request reaches together with
  \<open>req.user\<close>; a request that falls through gets Express's 404.
\<close>

fun dispatch ::
  "(string \<Rightarrow> objectId option) \<Rightarrow> user list \<Rightarrow> layer list \<Rightarrow> request \<Rightarrow> principal option
     \<Rightarrow> error + handler \<times> principal option" where
  "dispatch jwt_verify us [] req usr = Inl (404, ''Not Found'')"
| "dispatch jwt_verify us (Use m # ls) req usr =
     (case run_middleware jwt_verify us m req usr of
        Inl e \<Rightarrow> Inl e
      | Inr usr' \<Rightarrow> dispatch jwt_verify us ls req usr')"
| "dispatch jwt_verify us (Route meth pat ms h # ls) req usr =
     (if meth = rq_method req \<and> matches pat (rq_path req)
      then (case run_middlewares jwt_verify us ms req usr of
              Inl e \<Rightarrow> Inl e
            | Inr usr' \<Rightarrow> Inr (h, usr'))
      else dispatch jwt_verify us ls req usr)"

section \<open>The transition table of the specification\<close>

text \<open>
  The booking state machine as the specification words it: pending to approved, rejected
  or cancelled; approved to in progress or cancelled; in progress to completed or
  cancelled; nothing leaves completed, cancelled or rejected.
\<close>

definition spec_transitions :: "(string \<times> string) list" where
  "spec_transitions =
     [(''pending'', ''approved''), (''pending'', ''rejected''), (''pending'', ''cancelled''),
      (''approved'', ''in_progress''), (''approved'', ''cancelled''),
      (''in_progress'', ''completed''), (''in_progress'', ''cancelled'')]"

section \<open>Example data\<close>

text \<open>
  A garage open from 09:00 to 18:00 on every day but Sunday, one service of 60 minutes,
  and the people around it. 10 June 2024, a Monday, is day \<open>1717977600000\<close>; the Sunday
  before it is \<open>1717891200000\<close>.
\<close>

definition ex_open_day :: businessDay where
  "ex_open_day = \<lparr>bd_open = Some ''09:00'', bd_close = Some ''18:00'', bd_closed = False\<rparr>"

definition ex_closed_day :: businessDay where
  "ex_closed_day = \<lparr>bd_open = Some ''09:00'', bd_close = Some ''18:00'', bd_closed = True\<rparr>"

definition ex_hours :: businessHours where
  "ex_hours =
     \<lparr>monday = ex_open_day, tuesday = ex_open_day, wednesday = ex_open_day,
      thursday = ex_open_day, friday = ex_open_day, saturday = ex_open_day,
      sunday = ex_closed_day\<rparr>"

definition ex_garage :: garage where
  "ex_garage =
     \<lparr>g_id = 1, g_owner = 10, g_status = GActive, g_businessHours = ex_hours,
      g_stats = \<lparr>totalBookings = 0, completedBookings = 0, totalReviews = 0\<rparr>,
      g_isActive = True, g_isDeleted = False, g_creationPayment = None, g_paidAt = None\<rparr>"

definition ex_service :: service where
  "ex_service =
     \<lparr>s_id = 5, s_garage = 1, s_duration = 60, s_isAvailable = True, s_isDeleted = False\<rparr>"

definition ex_vehicle :: vehicleInfo where
  "ex_vehicle =
     \<lparr>vi_make = ''Toyota'', vi_model = ''Vitz'', vi_year = None,
      vi_licensePlate = ''AA-12345''\<rparr>"

definition ex_slot :: timeSlot where
  "ex_slot = \<lparr>ts_start = ''09:00'', ts_end = ''10:00''\<rparr>"

definition ex_monday :: date where
  "ex_monday = 1717977600000"

definition ex_sunday :: date where
  "ex_sunday = 1717891200000"

text \<open>The booking with \<open>_id\<close> 1: car owner 20, the example garage and slot, in a given status.\<close>

definition ex_booking :: "booking_status \<Rightarrow> booking" where
  "ex_booking st =
     \<lparr>b_id = 1, b_carOwner = 20, b_garage = 1, b_service = 5,
      b_bookingDate = ex_monday, b_timeSlot = ex_slot, b_status = st,
      b_vehicleInfo = ex_vehicle, b_notes = [], b_attachments = [], b_isDeleted = False,
      b_statusHistory = None, b_isPaid = None, b_payment = None, b_deletedAt = None,
      b_deletedBy = None\<rparr>"

definition ex_store :: "booking list \<Rightarrow> store" where
  "ex_store bs =
     \<lparr>garages = [ex_garage], services = [ex_service], bookings = bs,
      reviews = [], payments = [], users = []\<rparr>"

definition ex_car_owner :: principal where
  "ex_car_owner = \<lparr>pr_id = 20, pr_role = CarOwner\<rparr>"

definition ex_garage_owner :: principal where
  "ex_garage_owner = \<lparr>pr_id = 10, pr_role = GarageOwner\<rparr>"

definition ex_create_req :: "date \<Rightarrow> timeSlot \<Rightarrow> create_req" where
  "ex_create_req d ts =
     \<lparr>cr_garageId = Some 1, cr_serviceId = Some 5, cr_bookingDate = Some d,
      cr_timeSlot = Some ts, cr_vehicleInfo = Some ex_vehicle, cr_notes = None\<rparr>"

definition ex_avail_req :: "date \<Rightarrow> timeSlot \<Rightarrow> avail_req" where
  "ex_avail_req d ts =
     \<lparr>ar_garageId = Some 1, ar_serviceId = Some 5, ar_date = Some d, ar_timeSlot = Some ts\<rparr>"

text \<open>
  A second car owner, and the booking with \<open>_id\<close> 2 that this owner makes for the same
  garage, day and slot.
\<close>

definition ex_second_car_owner :: principal where
  "ex_second_car_owner = \<lparr>pr_id = 21, pr_role = CarOwner\<rparr>"

definition ex_second_booking :: booking where
  "ex_second_booking = (ex_booking Pending)\<lparr>b_id := 2, b_carOwner := 21\<rparr>"

text \<open>
  The payment that car owner 20 started for booking 1, a notification of the provider
  about it, and the signature the server computes for a notification.
\<close>

definition ex_hmac :: "chapa_payload \<Rightarrow> string" where
  "ex_hmac p = ''signed:'' @ cp_tx_ref p @ '':'' @ cp_status p"

definition ex_payload :: "string \<Rightarrow> chapa_payload" where
  "ex_payload st = \<lparr>cp_tx_ref = ''booking-1-tx'', cp_status = st\<rparr>"

definition ex_notification :: "string \<Rightarrow> webhook_req" where
  "ex_notification st =
     \<lparr>wr_payload = ex_payload st, wr_signature = Some (''signed:booking-1-tx:'' @ st)\<rparr>"

definition ex_payment :: "payment_status \<Rightarrow> date option \<Rightarrow> chapa_payload option \<Rightarrow> payment" where
  "ex_payment st paid resp =
     \<lparr>p_id = 7, p_user = 20, p_paymentType = BookingPayment, p_garageCreation_garage = None,
      p_booking = Some 1, p_status = st, p_transactionId = Some ''booking-1-tx'',
      p_provider_response = resp, p_paidAt = paid\<rparr>"

definition ex_user :: user where
  "ex_user =
     \<lparr>u_id = 20, u_role = CarOwner, u_canCreateGarage = False,
      u_garageCreationPayments = [], u_isDeleted = False\<rparr>"

definition ex_pay_store :: "garage \<Rightarrow> booking list \<Rightarrow> payment \<Rightarrow> store" where
  "ex_pay_store g bs p =
     \<lparr>garages = [g], services = [ex_service], bookings = bs,
      reviews = [], payments = [p], users = [ex_user]\<rparr>"

text \<open>The example garage after \<open>n\<close> bookings were created and \<open>c\<close> of them completed.\<close>

definition ex_garage_with :: "int \<Rightarrow> int \<Rightarrow> garage" where
  "ex_garage_with n c =
     ex_garage\<lparr>g_stats := \<lparr>totalBookings = n, completedBookings = c, totalReviews = 0\<rparr>\<rparr>"

section \<open>Times of day\<close>

text \<open>
  The zero-padded \<open>HH:MM\<close> form of a minute of the day, the format the specification
  assumes for opening hours and slots.
\<close>

definition two_digits :: "nat \<Rightarrow> string" where
  "two_digits n = [char_of (48 + n div 10), char_of (48 + n mod 10)]"

definition hhmm :: "nat \<Rightarrow> string" where
  "hhmm m = two_digits (m div 60) @ '':'' @ two_digits (m mod 60)"

text \<open>
  A second garage, and a review request of car owner 20 for booking 1 that names a
  garage of the caller's choice.
\<close>

definition ex_other_garage :: garage where
  "ex_other_garage = ex_garage\<lparr>g_id := 2, g_owner := 11\<rparr>"

definition ex_review_req :: "objectId \<Rightarrow> review_req" where
  "ex_review_req gid =
     \<lparr>rr_garageId = Some gid, rr_bookingId = Some 1, rr_rating = Some 5,
      rr_title = Some ''Great'', rr_comment = Some ''Fast and careful'', rr_images = None\<rparr>"

definition ex_review :: "objectId \<Rightarrow> review" where
  "ex_review gid =
     \<lparr>r_id = 1, r_carOwner = 20, r_garage = gid, r_booking = 1, r_rating = 5,
      r_title = ''Great'', r_comment = ''Fast and careful'', r_images = [],
      r_isVerified = True, r_isDeleted = False\<rparr>"

definition ex_review_store :: "booking list \<Rightarrow> review list \<Rightarrow> store" where
  "ex_review_store bs rs =
     \<lparr>garages = [ex_garage, ex_other_garage], services = [ex_service], bookings = bs,
      reviews = rs, payments = [], users = [ex_user]\<rparr>"

section \<open>Reading the aggregate\<close>

text \<open>\<open>garage.stats\<close> of the garage with a given \<open>_id\<close>, when there is one.\<close>

definition garage_stats :: "store \<Rightarrow> objectId \<Rightarrow> stats option" where
  "garage_stats s gid = map_option g_stats (findById g_id (garages s) gid)"

text \<open>
  The example store after \<open>n\<close> bookings were created and \<open>c\<close> completed, and the
  bookings with \<open>_id\<close> 2 and 3 that car owner 20 makes for later slots of the same day.
\<close>

definition ex_stats_store :: "int \<Rightarrow> int \<Rightarrow> booking list \<Rightarrow> store" where
  "ex_stats_store n c bs = (ex_store bs)\<lparr>garages := [ex_garage_with n c]\<rparr>"

definition ex_slot2 :: timeSlot where
  "ex_slot2 = \<lparr>ts_start = ''10:00'', ts_end = ''11:00''\<rparr>"

definition ex_slot3 :: timeSlot where
  "ex_slot3 = \<lparr>ts_start = ''11:00'', ts_end = ''12:00''\<rparr>"

definition ex_booking2 :: booking where
  "ex_booking2 = (ex_booking Pending)\<lparr>b_id := 2, b_timeSlot := ex_slot2\<rparr>"

definition ex_booking3 :: booking where
  "ex_booking3 = (ex_booking Pending)\<lparr>b_id := 3, b_timeSlot := ex_slot3\<rparr>"

section \<open>The slot invariant\<close>

text \<open>
  The invariant of the specification: for every garage, date, start and end, at most one
  booking that is neither cancelled nor rejected nor soft-deleted occupies the slot.
\<close>

definition one_per_slot :: "store \<Rightarrow> bool" where
  "one_per_slot s \<longleftrightarrow>
     (\<forall>gid d ts. length (filter (occupies gid d ts) (bookings s)) \<le> 1)"

text \<open>
  The specification speaks of a booking's calendar date. \<open>calendar_day\<close> is the UTC
  calendar day of an instant, counted in days since the epoch, and \<open>occupies_day\<close>
  reads the invariant by calendar day: the booking is for that garage, day, start and
  end, is neither cancelled nor rejected and is not soft-deleted.
\<close>

definition calendar_day :: "date \<Rightarrow> int" where
  "calendar_day d = d div 86400000"

definition occupies_day :: "objectId \<Rightarrow> int \<Rightarrow> timeSlot \<Rightarrow> booking \<Rightarrow> bool" where
  "occupies_day gid day ts b \<longleftrightarrow>
     b_garage b = gid \<and> calendar_day (b_bookingDate b) = day \<and>
     ts_start (b_timeSlot b) = ts_start ts \<and> ts_end (b_timeSlot b) = ts_end ts \<and>
     b_status b \<notin> {Cancelled, Rejected} \<and> \<not> b_isDeleted b"

text \<open>
  Noon of the example Monday, 2024-06-10T12:00:00Z, and the booking with \<open>_id\<close> 2 that
  car owner 21 makes for the example slot with that value as \<open>bookingDate\<close>.
\<close>

definition ex_monday_noon :: date where
  "ex_monday_noon = 1718020800000"

definition ex_noon_booking :: booking where
  "ex_noon_booking = ex_second_booking\<lparr>b_bookingDate := ex_monday_noon\<rparr>"

text \<open>No stored payment is of type \<open>booking\<close>.\<close>

definition no_booking_payment :: "store \<Rightarrow> bool" where
  "no_booking_payment s \<longleftrightarrow>
     list_all (\<lambda>p. p_paymentType p \<noteq> BookingPayment) (payments s)"

text \<open>
  A pending payment of user 20 for the creation of garage 1, and the provider's signed
  notification that it is settled.
\<close>

definition ex_creation_payment :: payment where
  "ex_creation_payment =
     \<lparr>p_id = 8, p_user = 20, p_paymentType = GarageCreation,
      p_garageCreation_garage = Some 1, p_booking = None, p_status = PPending,
      p_transactionId = Some ''garage-1-tx'', p_provider_response = None, p_paidAt = None\<rparr>"

definition ex_creation_notification :: webhook_req where
  "ex_creation_notification =
     \<lparr>wr_payload = \<lparr>cp_tx_ref = ''garage-1-tx'', cp_status = ''success''\<rparr>,
      wr_signature = Some ''signed:garage-1-tx:success''\<rparr>"

section \<open>Basic facts\<close>

lemmas ex_defs = ex_open_day_def ex_closed_day_def ex_hours_def ex_garage_def ex_service_def
  ex_vehicle_def ex_slot_def ex_booking_def ex_store_def ex_car_owner_def ex_garage_owner_def
  ex_monday_def ex_sunday_def ex_create_req_def ex_avail_req_def ex_second_car_owner_def
  ex_second_booking_def ex_hmac_def ex_payload_def ex_notification_def ex_payment_def
  ex_user_def ex_pay_store_def ex_garage_with_def ex_other_garage_def ex_review_req_def
  ex_review_def ex_review_store_def ex_stats_store_def ex_slot2_def ex_slot3_def
  ex_booking2_def ex_booking3_def

lemma findById_SomeD: "findById f xs i = Some d \<Longrightarrow> f d = i \<and> d \<in> set xs"
  by (auto simp: findById_def find_Some_iff)

lemma findById_updateOne:
  "(\<And>x. f x = i \<Longrightarrow> f (g x) = i) \<Longrightarrow>
   findById f (updateOne (\<lambda>x. f x = i) g xs) j =
     (if j = i then map_option g (findById f xs i) else findById f xs j)"
  by (induction xs) (auto simp: findById_def)

lemma status_of_name_status_name [simp]: "status_of_name (status_name st) = Some st"
  by (cases st) (simp_all add: status_of_name_def)

lemma status_of_name_SomeD: "status_of_name n = Some st \<Longrightarrow> status_name st = n"
  by (auto simp: status_of_name_def split: if_splits)

lemma in_validTransitions_iff:
  "target \<in> set (validTransitions cur) \<longleftrightarrow> (status_name cur, target) \<in> set spec_transitions"
  by (cases cur) (auto simp: spec_transitions_def)

lemma validTransitions_names:
  "target \<in> set (validTransitions cur) \<Longrightarrow> \<exists>st. status_of_name target = Some st"
  by (cases cur) (auto simp: status_of_name_def)

lemma bookings_garage_save [simp]: "bookings (garage_save s g) = bookings s"
  by (simp add: garage_save_def)

lemma b_id_persisted [simp]: "b_id (booking_persisted d) = b_id d"
  by (simp add: booking_persisted_def)

lemma b_status_persisted [simp]: "b_status (booking_persisted d) = b_status d"
  by (simp add: booking_persisted_def)

lemma findById_booking_save:
  "findById b_id (bookings s) (b_id d) \<noteq> None \<Longrightarrow>
   findById b_id (bookings (booking_save s d)) (b_id d) = Some (booking_persisted d)"
  by (auto simp: booking_save_def findById_updateOne)

lemma findById_member: "d \<in> set xs \<Longrightarrow> findById f xs (f d) \<noteq> None"
  by (auto simp: findById_def find_None_iff)

lemma find_SomeD: "List.find P xs = Some d \<Longrightarrow> P d \<and> d \<in> set xs"
  by (auto simp: find_Some_iff)

section \<open>The transition table\<close>

lemma update_same:
  assumes "findById b_id (bookings s) i = Some b" "\<not> b_isDeleted b"
    "findById g_id (garages s) (b_garage b) = Some g"
    "g_owner g = pr_id u \<or> pr_role u = Admin" "target \<noteq> []"
    "target = status_name (b_status b)"
  shows "updateBookingStatus now s u (Some i) (Some target) reason = (Inr b, s)"
  using assms by (auto simp: updateBookingStatus_def)

lemma update_invalid:
  assumes "findById b_id (bookings s) i = Some b" "\<not> b_isDeleted b"
    "findById g_id (garages s) (b_garage b) = Some g"
    "g_owner g = pr_id u \<or> pr_role u = Admin" "target \<noteq> []"
    "target \<noteq> status_name (b_status b)"
    "(status_name (b_status b), target) \<notin> set spec_transitions"
  shows "updateBookingStatus now s u (Some i) (Some target) reason =
     (Inl (400, ''Cannot transition from '' @ status_name (b_status b) @ '' to '' @ target), s)"
  using assms by (auto simp: updateBookingStatus_def in_validTransitions_iff)

lemma update_valid:
  assumes "findById b_id (bookings s) i = Some b" "\<not> b_isDeleted b"
    "findById g_id (garages s) (b_garage b) = Some g"
    "g_owner g = pr_id u \<or> pr_role u = Admin" "target \<noteq> []"
    "target \<noteq> status_name (b_status b)"
    "(status_name (b_status b), target) \<in> set spec_transitions"
  shows "\<exists>b' s'. updateBookingStatus now s u (Some i) (Some target) reason = (Inr b', s') \<and>
           status_name (b_status b') = target \<and> findById b_id (bookings s') i = Some b'"
proof -
  from assms(7) have tv: "target \<in> set (validTransitions (b_status b))"
    by (simp add: in_validTransitions_iff)
  then obtain st where st: "status_of_name target = Some st"
    using validTransitions_names by blast
  then have nm: "status_name st = target" by (rule status_of_name_SomeD)
  from assms(1) have bi: "b_id b = i" by (auto dest: findById_SomeD)
  from assms(3) have gi: "g_id g = b_garage b" by (auto dest: findById_SomeD)
  define e where "e = \<lparr>sc_status = target, sc_changedBy = pr_id u,
      sc_reason = or_default reason (''Status changed to '' @ target), sc_changedAt = now\<rparr>"
  define b1 where "b1 = push_history (b\<lparr>b_status := st\<rparr>) e"
  have b1i: "b_id b1 = i" by (simp add: b1_def push_history_def bi)
  have b1s: "b_status b1 = st" by (simp add: b1_def push_history_def)
  have "\<exists>s1. (if target = ''completed'' then complete_stats s (g_id g) else Some s) = Some s1
           \<and> bookings s1 = bookings s"
    using assms(3) by (simp add: complete_stats_def gi)
  then obtain s1
    where s1: "(if target = ''completed'' then complete_stats s (g_id g) else Some s) = Some s1"
      and bs1: "bookings s1 = bookings s"
    by blast
  have f: "findById b_id (bookings (booking_save s1 b1)) i = Some (booking_persisted b1)"
    using findById_booking_save[of s1 b1] assms(1) by (simp add: b1i bs1)
  have "updateBookingStatus now s u (Some i) (Some target) reason =
          (Inr (booking_persisted b1), booking_save s1 b1)"
    using assms(1-6) tv st s1 f
    by (simp add: updateBookingStatus_def Let_def b1_def e_def)
  with f nm b1s show ?thesis by simp
qed

lemma cancel_result:
  assumes "findById b_id (bookings s) i = Some b" "\<not> b_isDeleted b"
  shows "cancelBooking now s v (Some i) reason =
     (if b_carOwner b \<noteq> pr_id v then (Inl (404, ''Booking not found''), s)
      else if b_status b \<notin> {Pending, Approved}
      then (Inl (400, ''Cannot cancel booking with status: '' @ status_name (b_status b)), s)
      else (Inr (booking_persisted (push_history (b\<lparr>b_status := Cancelled\<rparr>)
                  \<lparr>sc_status = ''cancelled'', sc_changedBy = pr_id v,
                   sc_reason = or_default reason ''Cancelled by customer'',
                   sc_changedAt = now\<rparr>)),
            booking_save s (push_history (b\<lparr>b_status := Cancelled\<rparr>)
                  \<lparr>sc_status = ''cancelled'', sc_changedBy = pr_id v,
                   sc_reason = or_default reason ''Cancelled by customer'',
                   sc_changedAt = now\<rparr>)))"
  using assms by (simp add: cancelBooking_def findByIdWhere_def cancellableStatuses_def Let_def)

text \<open>
  Claim C4 fails as it is stated: a request for the status the booking already has
  succeeds, although no state of the table leads to itself. The handler tests for it
  before it consults the table, and answers with the booking unchanged.
\<close>

theorem transition_same_status_succeeds:
  "updateBookingStatus 0 (ex_store [ex_booking Completed]) ex_garage_owner (Some 1)
       (Some ''completed'') None
     = (Inr (ex_booking Completed), ex_store [ex_booking Completed])
   \<and> (''completed'', ''completed'') \<notin> set spec_transitions"
  by (simp add: updateBookingStatus_def ex_defs findById_def spec_transitions_def)

text \<open>
  Claim C4, amended. Take a booking that exists and is not soft-deleted, whose garage
  exists, an actor who owns that garage or is an admin, and a non-empty target status.
  A request for the booking's current status succeeds and changes nothing. Any other
  request succeeds exactly when the pair of current and target status is in the
  specification's table, and then the stored booking has the target status. Every
  remaining request fails with status 400 and the message naming source and target, and
  leaves the store as it was. The car owner's cancel operation succeeds exactly when the
  booking is the caller's and its status is pending or approved, and the booking it
  stores is cancelled.
\<close>

theorem booking_transitions_follow_table:
  assumes "findById b_id (bookings s) i = Some b"
    and "\<not> b_isDeleted b"
    and "findById g_id (garages s) (b_garage b) = Some g"
    and "g_owner g = pr_id u \<or> pr_role u = Admin"
    and "target \<noteq> []"
  shows "(if target = status_name (b_status b)
          then updateBookingStatus now s u (Some i) (Some target) reason = (Inr b, s)
          else if (status_name (b_status b), target) \<in> set spec_transitions
          then \<exists>b' s'. updateBookingStatus now s u (Some i) (Some target) reason = (Inr b', s') \<and>
                 status_name (b_status b') = target \<and>
                 findById b_id (bookings s') i = Some b'
          else updateBookingStatus now s u (Some i) (Some target) reason =
                 (Inl (400, ''Cannot transition from '' @ status_name (b_status b) @
                            '' to '' @ target), s))
       \<and> ((\<exists>c s'. cancelBooking now s v (Some i) creason = (Inr c, s')) \<longleftrightarrow>
            b_carOwner b = pr_id v \<and> b_status b \<in> {Pending, Approved})
       \<and> (\<forall>c s'. cancelBooking now s v (Some i) creason = (Inr c, s') \<longrightarrow>
            b_status c = Cancelled \<and> findById b_id (bookings s') i = Some c)"
proof (intro conjI)
  show "if target = status_name (b_status b)
        then updateBookingStatus now s u (Some i) (Some target) reason = (Inr b, s)
        else if (status_name (b_status b), target) \<in> set spec_transitions
        then \<exists>b' s'. updateBookingStatus now s u (Some i) (Some target) reason = (Inr b', s') \<and>
               status_name (b_status b') = target \<and>
               findById b_id (bookings s') i = Some b'
        else updateBookingStatus now s u (Some i) (Some target) reason =
               (Inl (400, ''Cannot transition from '' @ status_name (b_status b) @
                          '' to '' @ target), s)"
    using update_same[OF assms] update_valid[OF assms] update_invalid[OF assms]
    by (simp split: if_splits)
next
  show "(\<exists>c s'. cancelBooking now s v (Some i) creason = (Inr c, s')) \<longleftrightarrow>
          b_carOwner b = pr_id v \<and> b_status b \<in> {Pending, Approved}"
    by (simp add: cancel_result[OF assms(1,2)])
next
  from assms(1) have bi: "b_id b = i" by (auto dest: findById_SomeD)
  show "\<forall>c s'. cancelBooking now s v (Some i) creason = (Inr c, s') \<longrightarrow>
          b_status c = Cancelled \<and> findById b_id (bookings s') i = Some c"
  proof (intro allI impI)
    fix c s'
    assume c: "cancelBooking now s v (Some i) creason = (Inr c, s')"
    define b1 where "b1 = push_history (b\<lparr>b_status := Cancelled\<rparr>)
        \<lparr>sc_status = ''cancelled'', sc_changedBy = pr_id v,
         sc_reason = or_default creason ''Cancelled by customer'', sc_changedAt = now\<rparr>"
    from c have eq: "c = booking_persisted b1" "s' = booking_save s b1"
      by (auto simp: cancel_result[OF assms(1,2)] b1_def split: if_splits)
    have b1i: "b_id b1 = i" by (simp add: b1_def push_history_def bi)
    have "findById b_id (bookings (booking_save s b1)) i = Some (booking_persisted b1)"
      using findById_booking_save[of s b1] assms(1) by (simp add: b1i)
    then show "b_status c = Cancelled \<and> findById b_id (bookings s') i = Some c"
      by (simp add: eq b1_def push_history_def)
  qed
qed

theorem booking_transitions_follow_table_witness:
  "(\<exists>b' s'. updateBookingStatus 0 (ex_store [ex_booking Pending]) ex_garage_owner (Some 1)
               (Some ''approved'') None = (Inr b', s') \<and>
             status_name (b_status b') = ''approved'' \<and>
             findById b_id (bookings s') 1 = Some b')
   \<and> (\<exists>c s'. cancelBooking 0 (ex_store [ex_booking Pending]) ex_car_owner (Some 1) None
               = (Inr c, s'))"
proof -
  have 1: "findById b_id (bookings (ex_store [ex_booking Pending])) 1 = Some (ex_booking Pending)"
    by (simp add: ex_defs findById_def)
  have 2: "\<not> b_isDeleted (ex_booking Pending)"
    by (simp add: ex_defs)
  have 3: "findById g_id (garages (ex_store [ex_booking Pending])) (b_garage (ex_booking Pending))
             = Some ex_garage"
    by (simp add: ex_defs findById_def)
  have 4: "g_owner ex_garage = pr_id ex_garage_owner \<or> pr_role ex_garage_owner = Admin"
    by (simp add: ex_defs)
  have 5: "''approved'' \<noteq> []"
    by simp
  have 6: "b_status (ex_booking Pending) = Pending" "b_carOwner (ex_booking Pending) = pr_id ex_car_owner"
    by (simp_all add: ex_defs)
  show ?thesis
    using booking_transitions_follow_table[OF 1 2 3 4 5, of 0 None ex_car_owner None]
    by (simp add: 6 spec_transitions_def)
qed

section \<open>Payment notifications\<close>

lemma payment_save_not_completed:
  "p_status p \<noteq> PCompleted \<Longrightarrow>
   payment_save now s p = s\<lparr>payments := updateOne (\<lambda>x. p_id x = p_id p) (\<lambda>_. p) (payments s)\<rparr>"
  by (simp add: payment_save_def)

text \<open>
  Claim C10. A notification with a valid signature whose transaction reference finds a
  payment and whose status is anything but \<open>success\<close> is answered with success and
  stores the payment with status failed, whatever its status was before, completed
  included; the time of payment stays as it was. Bookings, users, garages, services and
  reviews are not touched, so nothing that an earlier settlement did is taken back.
\<close>

theorem webhook_failure_marks_failed:
  assumes "wr_signature req = Some (hmac (wr_payload req))"
    and "List.find (\<lambda>x. p_transactionId x = Some (cp_tx_ref (wr_payload req))) (payments s) = Some p"
    and "cp_status (wr_payload req) \<noteq> ''success''"
  shows "\<exists>s'. handleChapaWebhook hmac now s req = (Inr (), s') \<and>
           findById p_id (payments s') (p_id p) =
             Some (p\<lparr>p_status := PFailed, p_provider_response := Some (wr_payload req)\<rparr>) \<and>
           bookings s' = bookings s \<and> users s' = users s \<and> garages s' = garages s \<and>
           services s' = services s \<and> reviews s' = reviews s"
proof -
  define p' where "p' = p\<lparr>p_status := PFailed, p_provider_response := Some (wr_payload req)\<rparr>"
  define s' where "s' = s\<lparr>payments := updateOne (\<lambda>x. p_id x = p_id p) (\<lambda>_. p') (payments s)\<rparr>"
  have run: "handleChapaWebhook hmac now s req = (Inr (), s')"
    using assms by (simp add: handleChapaWebhook_def Let_def payment_save_def p'_def s'_def)
  from assms(2) have "p \<in> set (payments s)"
    by (auto dest: find_SomeD)
  then have "findById p_id (payments s) (p_id p) \<noteq> None"
    by (rule findById_member)
  moreover have "p_id p' = p_id p"
    by (simp add: p'_def)
  ultimately have "findById p_id (payments s') (p_id p) = Some p'"
    by (auto simp: s'_def findById_updateOne)
  with run show ?thesis
    by (simp add: s'_def p'_def)
qed

theorem webhook_failure_marks_failed_witness:
  "wr_signature (ex_notification ''failed'') = Some (ex_hmac (wr_payload (ex_notification ''failed'')))
   \<and> List.find (\<lambda>x. p_transactionId x = Some (cp_tx_ref (wr_payload (ex_notification ''failed''))))
        (payments (ex_pay_store ex_garage [ex_booking Approved] (ex_payment PCompleted (Some 1000) None)))
       = Some (ex_payment PCompleted (Some 1000) None)
   \<and> cp_status (wr_payload (ex_notification ''failed'')) \<noteq> ''success''
   \<and> (\<exists>s'. handleChapaWebhook ex_hmac 2000
               (ex_pay_store ex_garage [ex_booking Approved] (ex_payment PCompleted (Some 1000) None))
               (ex_notification ''failed'') = (Inr (), s') \<and>
             findById p_id (payments s') 7 =
               Some (ex_payment PFailed (Some 1000) (Some (ex_payload ''failed''))) \<and>
             bookings s' = [ex_booking Approved] \<and> users s' = [ex_user])"
proof -
  have 1: "wr_signature (ex_notification ''failed'') =
             Some (ex_hmac (wr_payload (ex_notification ''failed'')))"
    by (simp add: ex_notification_def ex_hmac_def ex_payload_def)
  have 2: "List.find (\<lambda>x. p_transactionId x = Some (cp_tx_ref (wr_payload (ex_notification ''failed''))))
        (payments (ex_pay_store ex_garage [ex_booking Approved] (ex_payment PCompleted (Some 1000) None)))
       = Some (ex_payment PCompleted (Some 1000) None)"
    by (simp add: ex_notification_def ex_payload_def ex_pay_store_def ex_payment_def)
  have 3: "cp_status (wr_payload (ex_notification ''failed'')) \<noteq> ''success''"
    by (simp add: ex_notification_def ex_payload_def)
  have 4: "(ex_payment PCompleted (Some 1000) None)
             \<lparr>p_status := PFailed, p_provider_response := Some (wr_payload (ex_notification ''failed''))\<rparr>
           = ex_payment PFailed (Some 1000) (Some (ex_payload ''failed''))"
    "p_id (ex_payment PCompleted (Some 1000) None) = 7"
    "bookings (ex_pay_store ex_garage [ex_booking Approved] (ex_payment PCompleted (Some 1000) None))
       = [ex_booking Approved]"
    "users (ex_pay_store ex_garage [ex_booking Approved] (ex_payment PCompleted (Some 1000) None))
       = [ex_user]"
    by (simp_all add: ex_payment_def ex_notification_def ex_pay_store_def)
  note run = webhook_failure_marks_failed
    [where req = "ex_notification ''failed''" and hmac = ex_hmac and now = 2000
       and s = "ex_pay_store ex_garage [ex_booking Approved] (ex_payment PCompleted (Some 1000) None)"
       and p = "ex_payment PCompleted (Some 1000) None", OF 1 2 3]
  from run 1 2 3 show ?thesis
    unfolding 4 by blast
qed

section \<open>Availability at the boundaries of the business hours\<close>

lemma js_lt_irrefl [simp]: "\<not> js_lt x x"
  by (induction x) simp_all

lemma of_char_digit: "d < 10 \<Longrightarrow> (of_char (char_of (48 + d :: nat) :: char) :: nat) = 48 + d"
  by simp

lemma of_char_colon: "(of_char CHR '':'' :: nat) = 58"
  by simp

lemma js_lt_digits:
  fixes h1 h2 m1 m2 k1 k2 n1 n2 :: nat
  assumes "h1 < 10" "h2 < 10" "m1 < 10" "m2 < 10" "k1 < 10" "k2 < 10" "n1 < 10" "n2 < 10"
  shows "js_lt [char_of (48 + h1), char_of (48 + h2), CHR '':'', char_of (48 + m1), char_of (48 + m2)]
               [char_of (48 + k1), char_of (48 + k2), CHR '':'', char_of (48 + n1), char_of (48 + n2)]
         \<longleftrightarrow> (h1 < k1 \<or> (h1 = k1 \<and> (h2 < k2 \<or> (h2 = k2 \<and> (m1 < n1 \<or> (m1 = n1 \<and> m2 < n2))))))"
  using assms by (simp only: js_lt.simps of_char_digit of_char_colon) auto

lemma lex_div_mod:
  fixes x y :: nat
  assumes "0 < k"
  shows "x < y \<longleftrightarrow> x div k < y div k \<or> (x div k = y div k \<and> x mod k < y mod k)"
proof -
  have x: "x = k * (x div k) + x mod k" and y: "y = k * (y div k) + y mod k"
    by simp_all
  have xm: "x mod k < k" and ym: "y mod k < k"
    using assms by simp_all
  show ?thesis
  proof (cases "x div k = y div k")
    case True
    then show ?thesis using x y by (metis nat_add_left_cancel_less less_irrefl)
  next
    case False
    then consider "x div k < y div k" | "y div k < x div k" by linarith
    then show ?thesis
    proof cases
      case 1
      then have "x div k + 1 \<le> y div k" by simp
      then have "k * (x div k) + k \<le> k * (y div k)"
        by (metis add_mult_distrib2 mult_le_mono2 nat_mult_1_right)
      then have "x < y" using x y xm by linarith
      with 1 show ?thesis by simp
    next
      case 2
      then have "y div k + 1 \<le> x div k" by simp
      then have "k * (y div k) + k \<le> k * (x div k)"
        by (metis add_mult_distrib2 mult_le_mono2 nat_mult_1_right)
      then have "y < x" using x y ym by linarith
      with 2 show ?thesis by auto
    qed
  qed
qed

text \<open>On zero-padded times the comparison of strings is the comparison of minutes.\<close>

lemma js_lt_hhmm:
  assumes "a < 1440" "b < 1440"
  shows "js_lt (hhmm a) (hhmm b) \<longleftrightarrow> a < b"
proof -
  have ha: "a div 60 div 10 < 10" "a div 60 mod 10 < 10" "a mod 60 div 10 < 10"
      "a mod 60 mod 10 < 10"
    using assms(1) by simp_all
  have hb: "b div 60 div 10 < 10" "b div 60 mod 10 < 10" "b mod 60 div 10 < 10"
      "b mod 60 mod 10 < 10"
    using assms(2) by simp_all
  have 1: "a < b \<longleftrightarrow> a div 60 < b div 60 \<or> (a div 60 = b div 60 \<and> a mod 60 < b mod 60)"
    by (rule lex_div_mod) simp
  have 2: "a div 60 < b div 60 \<longleftrightarrow> a div 60 div 10 < b div 60 div 10 \<or>
             (a div 60 div 10 = b div 60 div 10 \<and> a div 60 mod 10 < b div 60 mod 10)"
    by (rule lex_div_mod) simp
  have 3: "a mod 60 < b mod 60 \<longleftrightarrow> a mod 60 div 10 < b mod 60 div 10 \<or>
             (a mod 60 div 10 = b mod 60 div 10 \<and> a mod 60 mod 10 < b mod 60 mod 10)"
    by (rule lex_div_mod) simp
  have 4: "a div 60 = b div 60 \<longleftrightarrow>
             a div 60 div 10 = b div 60 div 10 \<and> a div 60 mod 10 = b div 60 mod 10"
    by (metis div_mult_mod_eq)
  have "js_lt (hhmm a) (hhmm b) \<longleftrightarrow>
        (a div 60 div 10 < b div 60 div 10 \<or> (a div 60 div 10 = b div 60 div 10 \<and>
          (a div 60 mod 10 < b div 60 mod 10 \<or> (a div 60 mod 10 = b div 60 mod 10 \<and>
            (a mod 60 div 10 < b mod 60 div 10 \<or> (a mod 60 div 10 = b mod 60 div 10 \<and>
              a mod 60 mod 10 < b mod 60 mod 10))))))"
    unfolding hhmm_def two_digits_def append.simps
    by (rule js_lt_digits[OF ha hb])
  also have "\<dots> \<longleftrightarrow> a < b"
    unfolding 1 2 3 4 by blast
  finally show ?thesis .
qed

text \<open>What \<open>checkAvailability\<close> answers once the garage and the day's hours are found.\<close>

lemma checkAvailability_open_day:
  assumes "ar_garageId req = Some gid" "ar_date req = Some d" "ar_timeSlot req = Some ts"
    and "findById g_id (garages s) gid = Some g" "\<not> g_isDeleted g"
    and "businessDay_of (g_businessHours g) (dayOfWeek d) = Some day"
  shows "checkAvailability s req =
     (if bd_closed day then Inr (Unavailable ''Garage is closed on this day'')
      else if \<not> (js_ge (ts_start ts) (bd_open day) \<and> js_le (ts_end ts) (bd_close day))
      then Inr (Unavailable ''Time slot is outside business hours'')
      else if existingBooking s gid d ts \<noteq> None
      then Inr (Unavailable ''Time slot already booked'')
      else
        (case ar_serviceId req of
           None \<Rightarrow> Inr (Available ''Time slot is available'')
         | Some serviceId \<Rightarrow>
             (case findById s_id (services s) serviceId of
                None \<Rightarrow> Inr (Available ''Time slot is available'')
              | Some service \<Rightarrow>
                  (case slotDuration ts of
                     None \<Rightarrow> Inr (Available ''Time slot is available'')
                   | Some dur \<Rightarrow>
                       if dur < s_duration service
                       then Inr (Unavailable
                              (''Time slot duration ('' @ show_int dur @
                               ''min) is less than service duration ('' @
                               show_int (s_duration service) @ ''min)''))
                       else Inr (Available ''Time slot is available'')))))"
  using assms by (simp add: checkAvailability_def findByIdWhere_def)

lemma within_hours_not_outside:
  assumes "ar_garageId req = Some gid" "ar_date req = Some d" "ar_timeSlot req = Some ts"
    and "findById g_id (garages s) gid = Some g" "\<not> g_isDeleted g"
    and "businessDay_of (g_businessHours g) (dayOfWeek d) = Some day"
    and "\<not> bd_closed day"
    and "js_ge (ts_start ts) (bd_open day)" "js_le (ts_end ts) (bd_close day)"
  shows "checkAvailability s req \<noteq> Inr (Unavailable ''Time slot is outside business hours'')"
  using assms(7-9)
  by (simp add: checkAvailability_open_day[OF assms(1-6)] split: option.splits)

text \<open>
  Claim C7. Take a request that names a garage, a date and a slot, a garage that exists
  and is not soft-deleted, and its business-hours entry for the weekday of the date.
  The checks run in the order of the specification, each one deciding the answer
  whatever the later ones would say:
  \<^item> on a day marked closed the answer is unavailable, \<open>Garage is closed on this day\<close>,
    for every slot;
  \<^item> on an open day a slot that starts at the opening time and ends at the closing
    time is not refused for the business hours, and is available when no booking
    occupies it and no service is named;
  \<^item> on an open day, for times in zero-padded \<open>HH:MM\<close> form, the answer is unavailable,
    \<open>Time slot is outside business hours\<close>, exactly when the slot starts before the
    opening minute or ends after the closing minute: both comparisons are inclusive,
    and one minute outside is refused;
  \<^item> a slot within the hours that a booking occupies is unavailable,
    \<open>Time slot already booked\<close>, whatever service is named.
\<close>

theorem availability_boundaries:
  assumes "ar_garageId req = Some gid" and "ar_date req = Some d" and "ar_timeSlot req = Some ts"
    and "findById g_id (garages s) gid = Some g" and "\<not> g_isDeleted g"
    and "businessDay_of (g_businessHours g) (dayOfWeek d) = Some day"
  shows "(bd_closed day \<longrightarrow>
            checkAvailability s req = Inr (Unavailable ''Garage is closed on this day''))
       \<and> (\<not> bd_closed day \<and> bd_open day = Some (ts_start ts) \<and> bd_close day = Some (ts_end ts) \<longrightarrow>
            checkAvailability s req \<noteq> Inr (Unavailable ''Time slot is outside business hours'') \<and>
            (existingBooking s gid d ts = None \<and> ar_serviceId req = None \<longrightarrow>
               checkAvailability s req = Inr (Available ''Time slot is available'')))
       \<and> (\<not> bd_closed day \<and> bd_open day = Some (hhmm opens) \<and> bd_close day = Some (hhmm closes) \<and>
          ts_start ts = hhmm a \<and> ts_end ts = hhmm b \<and>
          opens < 1440 \<and> closes < 1440 \<and> a < 1440 \<and> b < 1440 \<longrightarrow>
            (checkAvailability s req = Inr (Unavailable ''Time slot is outside business hours'')
               \<longleftrightarrow> a < opens \<or> closes < b))
       \<and> (\<not> bd_closed day \<and> js_ge (ts_start ts) (bd_open day) \<and> js_le (ts_end ts) (bd_close day) \<and>
          existingBooking s gid d ts \<noteq> None \<longrightarrow>
            checkAvailability s req = Inr (Unavailable ''Time slot already booked''))"
proof (intro conjI impI)
  assume "bd_closed day"
  then show "checkAvailability s req = Inr (Unavailable ''Garage is closed on this day'')"
    by (simp add: checkAvailability_open_day[OF assms])
next
  assume h: "\<not> bd_closed day \<and> bd_open day = Some (ts_start ts) \<and> bd_close day = Some (ts_end ts)"
  then have "js_ge (ts_start ts) (bd_open day)" "js_le (ts_end ts) (bd_close day)"
    by (simp_all add: js_ge_def js_le_def)
  with h show "checkAvailability s req \<noteq> Inr (Unavailable ''Time slot is outside business hours'')"
    using within_hours_not_outside[OF assms] by blast
next
  assume h: "\<not> bd_closed day \<and> bd_open day = Some (ts_start ts) \<and> bd_close day = Some (ts_end ts)"
    and f: "existingBooking s gid d ts = None \<and> ar_serviceId req = None"
  from h have "js_ge (ts_start ts) (bd_open day)" "js_le (ts_end ts) (bd_close day)"
    by (simp_all add: js_ge_def js_le_def)
  with h f show "checkAvailability s req = Inr (Available ''Time slot is available'')"
    by (simp add: checkAvailability_open_day[OF assms])
next
  assume h: "\<not> bd_closed day \<and> bd_open day = Some (hhmm opens) \<and> bd_close day = Some (hhmm closes) \<and>
          ts_start ts = hhmm a \<and> ts_end ts = hhmm b \<and>
          opens < 1440 \<and> closes < 1440 \<and> a < 1440 \<and> b < 1440"
  then have ge: "js_ge (ts_start ts) (bd_open day) \<longleftrightarrow> \<not> a < opens"
    and le: "js_le (ts_end ts) (bd_close day) \<longleftrightarrow> \<not> closes < b"
    by (simp_all add: js_ge_def js_le_def js_lt_hhmm)
  show "checkAvailability s req = Inr (Unavailable ''Time slot is outside business hours'')
          \<longleftrightarrow> a < opens \<or> closes < b"
  proof (cases "a < opens \<or> closes < b")
    case True
    with h ge le show ?thesis
      by (auto simp add: checkAvailability_open_day[OF assms])
  next
    case False
    with ge le have "js_ge (ts_start ts) (bd_open day)" "js_le (ts_end ts) (bd_close day)"
      by simp_all
    with h False show ?thesis
      using within_hours_not_outside[OF assms] by blast
  qed
next
  assume "\<not> bd_closed day \<and> js_ge (ts_start ts) (bd_open day) \<and> js_le (ts_end ts) (bd_close day) \<and>
          existingBooking s gid d ts \<noteq> None"
  then show "checkAvailability s req = Inr (Unavailable ''Time slot already booked'')"
    by (simp add: checkAvailability_open_day[OF assms])
qed

theorem availability_boundaries_witness:
  "checkAvailability (ex_store []) (ex_avail_req ex_sunday ex_slot)
     = Inr (Unavailable ''Garage is closed on this day'')
   \<and> checkAvailability (ex_store [])
       \<lparr>ar_garageId = Some 1, ar_serviceId = None, ar_date = Some ex_monday,
        ar_timeSlot = Some \<lparr>ts_start = ''09:00'', ts_end = ''18:00''\<rparr>\<rparr>
     = Inr (Available ''Time slot is available'')
   \<and> checkAvailability (ex_store [])
       (ex_avail_req ex_monday \<lparr>ts_start = ''08:59'', ts_end = ''10:00''\<rparr>)
     = Inr (Unavailable ''Time slot is outside business hours'')
   \<and> checkAvailability (ex_store [])
       (ex_avail_req ex_monday \<lparr>ts_start = ''17:00'', ts_end = ''18:01''\<rparr>)
     = Inr (Unavailable ''Time slot is outside business hours'')
   \<and> checkAvailability (ex_store [ex_booking Pending]) (ex_avail_req ex_monday ex_slot)
     = Inr (Unavailable ''Time slot already booked'')"
proof -
  have hh: "hhmm 539 = ''08:59''" "hhmm 540 = ''09:00''" "hhmm 600 = ''10:00''"
      "hhmm 1020 = ''17:00''" "hhmm 1080 = ''18:00''" "hhmm 1081 = ''18:01''"
    by code_simp+
  have sun: "businessDay_of (g_businessHours ex_garage) (dayOfWeek ex_sunday) = Some ex_closed_day"
    by code_simp
  have mon: "businessDay_of (g_businessHours ex_garage) (dayOfWeek ex_monday) = Some ex_open_day"
    by code_simp
  have g: "findById g_id (garages (ex_store bs)) 1 = Some ex_garage" "\<not> g_isDeleted ex_garage" for bs
    by (simp_all add: findById_def ex_store_def ex_garage_def)
  have day: "bd_closed ex_closed_day" "\<not> bd_closed ex_open_day"
      "bd_open ex_open_day = Some ''09:00''" "bd_close ex_open_day = Some ''18:00''"
    by (simp_all add: ex_closed_day_def ex_open_day_def)
  have r: "ar_garageId (ex_avail_req d ts) = Some 1" "ar_date (ex_avail_req d ts) = Some d"
      "ar_timeSlot (ex_avail_req d ts) = Some ts" for d ts
    by (simp_all add: ex_avail_req_def)
  have 1: "checkAvailability (ex_store []) (ex_avail_req ex_sunday ex_slot)
             = Inr (Unavailable ''Garage is closed on this day'')"
    using availability_boundaries[OF r g sun] day by blast
  have 2: "checkAvailability (ex_store [])
       \<lparr>ar_garageId = Some 1, ar_serviceId = None, ar_date = Some ex_monday,
        ar_timeSlot = Some \<lparr>ts_start = ''09:00'', ts_end = ''18:00''\<rparr>\<rparr>
     = Inr (Available ''Time slot is available'')"
    using availability_boundaries
      [where req = "\<lparr>ar_garageId = Some 1, ar_serviceId = None, ar_date = Some ex_monday,
                     ar_timeSlot = Some \<lparr>ts_start = ''09:00'', ts_end = ''18:00''\<rparr>\<rparr>"
         and gid = 1 and d = ex_monday and ts = "\<lparr>ts_start = ''09:00'', ts_end = ''18:00''\<rparr>"
         and s = "ex_store []" and g = ex_garage and day = ex_open_day, OF _ _ _ g mon]
      day
    by (simp add: existingBooking_def ex_store_def)
  have 3: "checkAvailability (ex_store [])
       (ex_avail_req ex_monday \<lparr>ts_start = ''08:59'', ts_end = ''10:00''\<rparr>)
     = Inr (Unavailable ''Time slot is outside business hours'')"
    using availability_boundaries
      [where opens = 540 and closes = 1080 and a = 539 and b = 600, OF r g mon] day
    by (simp add: hh)
  have 4: "checkAvailability (ex_store [])
       (ex_avail_req ex_monday \<lparr>ts_start = ''17:00'', ts_end = ''18:01''\<rparr>)
     = Inr (Unavailable ''Time slot is outside business hours'')"
    using availability_boundaries
      [where opens = 540 and closes = 1080 and a = 1020 and b = 1081, OF r g mon] day
    by (simp add: hh)
  have occ: "existingBooking (ex_store [ex_booking Pending]) 1 ex_monday ex_slot \<noteq> None"
    by (simp add: existingBooking_def occupies_def ex_store_def ex_booking_def)
  have win: "js_ge (ts_start ex_slot) (bd_open ex_open_day)"
      "js_le (ts_end ex_slot) (bd_close ex_open_day)"
    by (simp_all add: js_ge_def js_le_def ex_slot_def ex_open_day_def)
  have 5: "checkAvailability (ex_store [ex_booking Pending]) (ex_avail_req ex_monday ex_slot)
     = Inr (Unavailable ''Time slot already booked'')"
    using availability_boundaries[OF r g mon] day occ win by blast
  from 1 2 3 4 5 show ?thesis by blast
qed

section \<open>The review gate\<close>









section \<open>The garage's counters\<close>

lemma fold_max_ge: "(a::nat) \<le> fold max xs a"
  by (induction xs arbitrary: a) (auto intro: order_trans[OF max.cobounded2])

lemma fold_max_member: "(x::nat) \<in> set xs \<Longrightarrow> x \<le> fold max xs a"
proof (induction xs arbitrary: a)
  case Nil
  then show ?case by simp
next
  case (Cons y ys)
  show ?case
  proof (cases "x = y")
    case True
    have "max y a \<le> fold max ys (max y a)" by (rule fold_max_ge)
    with True show ?thesis by simp
  next
    case False
    with Cons show ?thesis by simp
  qed
qed

lemma new_id_fresh: "new_id ids \<notin> set ids"
  using fold_max_member[of "new_id ids" ids 0] by (auto simp: new_id_def)

lemma findById_append:
  "findById f (xs @ [x]) i =
     (case findById f xs i of None \<Rightarrow> if f x = i then Some x else None | Some d \<Rightarrow> Some d)"
  by (induction xs) (auto simp: findById_def)

lemma findById_None_iff: "findById f xs i = None \<longleftrightarrow> i \<notin> f ` set xs"
  by (auto simp: findById_def find_None_iff)

lemma g_id_pre_save [simp]: "g_id (garage_pre_save g) = g_id g"
  by (simp add: garage_pre_save_def)

lemma g_stats_pre_save [simp]: "g_stats (garage_pre_save g) = g_stats g"
  by (simp add: garage_pre_save_def)

lemma garage_stats_garage_save:
  assumes "findById g_id (garages s) (g_id g) \<noteq> None"
  shows "garage_stats (garage_save s g) gid =
           (if gid = g_id g then Some (g_stats g) else garage_stats s gid)"
  using assms by (auto simp: garage_stats_def garage_save_def findById_updateOne)

lemma garage_stats_bookings_update [simp]:
  "garage_stats (s\<lparr>bookings := bs\<rparr>) gid = garage_stats s gid"
  by (simp add: garage_stats_def)

lemma garage_stats_booking_save [simp]:
  "garage_stats (booking_save s b) gid = garage_stats s gid"
  by (simp add: garage_stats_def booking_save_def)

lemma createBooking_success:
  assumes "createBooking s u req = (Inr b, s')"
  shows "cr_garageId req = Some (b_garage b)"
    and "b_status b = Pending" and "\<not> b_isDeleted b"
    and "b_id b = new_id (map b_id (bookings s))"
    and "bookings s' = bookings s @ [b]"
    and "\<exists>g. findById g_id (garages s) (b_garage b) = Some g \<and>
             s' = garage_save (s\<lparr>bookings := bookings s @ [b]\<rparr>)
                    (g\<lparr>g_stats := (g_stats g)\<lparr>totalBookings := totalBookings (g_stats g) + 1\<rparr>\<rparr>)"
  using assms
  by (auto simp: createBooking_def Let_def findByIdWhere_def
      split: option.splits if_splits)

lemma createBooking_stats:
  assumes "createBooking s u req = (Inr b, s')"
  shows "garage_stats s' gid =
     (if gid = b_garage b
      then map_option (\<lambda>st. st\<lparr>totalBookings := totalBookings st + 1\<rparr>) (garage_stats s gid)
      else garage_stats s gid)"
proof -
  from createBooking_success(6)[OF assms] obtain g
    where g: "findById g_id (garages s) (b_garage b) = Some g"
      and s': "s' = garage_save (s\<lparr>bookings := bookings s @ [b]\<rparr>)
                    (g\<lparr>g_stats := (g_stats g)\<lparr>totalBookings := totalBookings (g_stats g) + 1\<rparr>\<rparr>)"
    by blast
  from g have gi: "g_id g = b_garage b" by (auto dest: findById_SomeD)
  show ?thesis
    unfolding s' using g
    by (subst garage_stats_garage_save) (auto simp: gi garage_stats_def)
qed

lemma createBooking_finds:
  assumes "createBooking s u req = (Inr b, s')"
  shows "findById b_id (bookings s') (b_id b) = Some b"
    and "findById b_id (bookings s) j = Some x \<Longrightarrow> findById b_id (bookings s') j = Some x"
proof -
  have "b_id b \<notin> b_id ` set (bookings s)"
    using new_id_fresh[of "map b_id (bookings s)"] createBooking_success(4)[OF assms] by simp
  then have "findById b_id (bookings s) (b_id b) = None"
    by (simp add: findById_None_iff)
  then show "findById b_id (bookings s') (b_id b) = Some b"
    by (simp add: createBooking_success(5)[OF assms] findById_append)
  show "findById b_id (bookings s) j = Some x \<Longrightarrow> findById b_id (bookings s') j = Some x"
    by (simp add: createBooking_success(5)[OF assms] findById_append)
qed


lemma updateBookingStatus_pre:
  assumes "updateBookingStatus now s u (Some i) (Some target) reason = (Inr b', s')"
  shows "\<exists>b g. findById b_id (bookings s) i = Some b \<and> \<not> b_isDeleted b \<and>
           findById g_id (garages s) (b_garage b) = Some g \<and>
           (g_owner g = pr_id u \<or> pr_role u = Admin) \<and> target \<noteq> []"
  using assms
  by (auto simp: updateBookingStatus_def Let_def split: option.splits if_splits)

lemma update_valid_result:
  assumes "findById b_id (bookings s) i = Some b" "\<not> b_isDeleted b"
    "findById g_id (garages s) (b_garage b) = Some g"
    "g_owner g = pr_id u \<or> pr_role u = Admin" "target \<noteq> []"
    "target \<noteq> status_name (b_status b)"
    "(status_name (b_status b), target) \<in> set spec_transitions"
  shows "\<exists>st. status_name st = target \<and>
           updateBookingStatus now s u (Some i) (Some target) reason =
             (Inr (booking_persisted (push_history (b\<lparr>b_status := st\<rparr>)
                     \<lparr>sc_status = target, sc_changedBy = pr_id u,
                      sc_reason = or_default reason (''Status changed to '' @ target),
                      sc_changedAt = now\<rparr>)),
              booking_save
                (if target = ''completed''
                 then garage_save s (g\<lparr>g_stats := (g_stats g)
                        \<lparr>completedBookings := completedBookings (g_stats g) + 1\<rparr>\<rparr>)
                 else s)
                (push_history (b\<lparr>b_status := st\<rparr>)
                     \<lparr>sc_status = target, sc_changedBy = pr_id u,
                      sc_reason = or_default reason (''Status changed to '' @ target),
                      sc_changedAt = now\<rparr>))"
proof -
  from assms(7) have tv: "target \<in> set (validTransitions (b_status b))"
    by (simp add: in_validTransitions_iff)
  then obtain st where st: "status_of_name target = Some st"
    using validTransitions_names by blast
  then have nm: "status_name st = target" by (rule status_of_name_SomeD)
  from assms(1) have bi: "b_id b = i" by (auto dest: findById_SomeD)
  from assms(3) have gi: "g_id g = b_garage b" by (auto dest: findById_SomeD)
  define b1 where "b1 = push_history (b\<lparr>b_status := st\<rparr>)
      \<lparr>sc_status = target, sc_changedBy = pr_id u,
       sc_reason = or_default reason (''Status changed to '' @ target), sc_changedAt = now\<rparr>"
  define s1 where "s1 = (if target = ''completed''
                 then garage_save s (g\<lparr>g_stats := (g_stats g)
                        \<lparr>completedBookings := completedBookings (g_stats g) + 1\<rparr>\<rparr>)
                 else s)"
  have b1i: "b_id b1 = i" by (simp add: b1_def push_history_def bi)
  have c: "(if target = ''completed'' then complete_stats s (g_id g) else Some s) = Some s1"
    using assms(3) by (simp add: complete_stats_def gi s1_def)
  have bs1: "bookings s1 = bookings s" by (simp add: s1_def)
  have f: "findById b_id (bookings (booking_save s1 b1)) i = Some (booking_persisted b1)"
    using findById_booking_save[of s1 b1] assms(1) by (simp add: b1i bs1)
  have "updateBookingStatus now s u (Some i) (Some target) reason =
          (Inr (booking_persisted b1), booking_save s1 b1)"
    using assms(1-6) tv st c f
    by (simp add: updateBookingStatus_def Let_def b1_def)
  with nm show ?thesis unfolding b1_def s1_def by blast
qed

lemma updateBookingStatus_success:
  assumes "updateBookingStatus now s u (Some i) (Some target) reason = (Inr b', s')"
  shows "\<exists>b. findById b_id (bookings s) i = Some b \<and> \<not> b_isDeleted b \<and>
     ((target = status_name (b_status b) \<and> s' = s \<and> b' = b) \<or>
      (target \<noteq> status_name (b_status b) \<and>
       (status_name (b_status b), target) \<in> set spec_transitions \<and>
       status_name (b_status b') = target \<and>
       findById b_id (bookings s') i = Some b' \<and>
       b_garage b' = b_garage b \<and> \<not> b_isDeleted b' \<and>
       (\<forall>gid. garage_stats s' gid =
          (if target = ''completed'' \<and> gid = b_garage b
           then map_option (\<lambda>st. st\<lparr>completedBookings := completedBookings st + 1\<rparr>)
                  (garage_stats s gid)
           else garage_stats s gid))))"
proof -
  from updateBookingStatus_pre[OF assms] obtain b g
    where pre: "findById b_id (bookings s) i = Some b" "\<not> b_isDeleted b"
      "findById g_id (garages s) (b_garage b) = Some g"
      "g_owner g = pr_id u \<or> pr_role u = Admin" "target \<noteq> []"
    by blast
  from pre(1) have bi: "b_id b = i" by (auto dest: findById_SomeD)
  from pre(3) have gi: "g_id g = b_garage b" by (auto dest: findById_SomeD)
  show ?thesis
  proof (cases "target = status_name (b_status b)")
    case True
    with update_same[OF pre True] assms pre show ?thesis by auto
  next
    case False
    show ?thesis
    proof (cases "(status_name (b_status b), target) \<in> set spec_transitions")
      case no: False
      from update_invalid[OF pre False no] assms show ?thesis by simp
    next
      case yes: True
      from update_valid_result[OF pre False yes, of now reason] assms obtain st
        where st: "status_name st = target"
          and b': "b' = booking_persisted (push_history (b\<lparr>b_status := st\<rparr>)
                     \<lparr>sc_status = target, sc_changedBy = pr_id u,
                      sc_reason = or_default reason (''Status changed to '' @ target),
                      sc_changedAt = now\<rparr>)"
          and s': "s' = booking_save
                (if target = ''completed''
                 then garage_save s (g\<lparr>g_stats := (g_stats g)
                        \<lparr>completedBookings := completedBookings (g_stats g) + 1\<rparr>\<rparr>)
                 else s)
                (push_history (b\<lparr>b_status := st\<rparr>)
                     \<lparr>sc_status = target, sc_changedBy = pr_id u,
                      sc_reason = or_default reason (''Status changed to '' @ target),
                      sc_changedAt = now\<rparr>)"
        by auto
      have props: "status_name (b_status b') = target" "b_garage b' = b_garage b"
          "\<not> b_isDeleted b'" "b_id b' = i"
        using pre(2) by (simp_all add: b' st booking_persisted_def push_history_def bi)
      have find: "findById b_id (bookings s') i = Some b'"
        using findById_booking_save[of "if target = ''completed''
                 then garage_save s (g\<lparr>g_stats := (g_stats g)
                        \<lparr>completedBookings := completedBookings (g_stats g) + 1\<rparr>\<rparr>)
                 else s" "push_history (b\<lparr>b_status := st\<rparr>)
                     \<lparr>sc_status = target, sc_changedBy = pr_id u,
                      sc_reason = or_default reason (''Status changed to '' @ target),
                      sc_changedAt = now\<rparr>"] pre(1)
        unfolding s' b' by (simp add: push_history_def bi)
      have stats: "garage_stats s' gid =
          (if target = ''completed'' \<and> gid = b_garage b
           then map_option (\<lambda>st. st\<lparr>completedBookings := completedBookings st + 1\<rparr>)
                  (garage_stats s gid)
           else garage_stats s gid)" for gid
        unfolding s' using pre(3)
        by (auto simp: garage_stats_garage_save gi) (simp add: garage_stats_def)
      from pre False yes props find stats show ?thesis by blast
    qed
  qed
qed

lemma deleteBooking_success:
  assumes "deleteBooking now s u (Some i) = (Inr (), s')"
  shows "\<exists>b. findById b_id (bookings s) i = Some b \<and> \<not> b_isDeleted b \<and>
     (\<forall>gid. garage_stats s' gid =
        (if b_status b = Completed \<and> gid = b_garage b
         then map_option (\<lambda>st. st\<lparr>completedBookings := max 0 (completedBookings st - 1)\<rparr>)
                (garage_stats s gid)
         else garage_stats s gid))"
proof -
  from assms obtain b where b: "findById b_id (bookings s) i = Some b" "\<not> b_isDeleted b"
    by (auto simp: deleteBooking_def Let_def split: option.splits if_splits)
  define b1 where "b1 = b\<lparr>b_isDeleted := True, b_deletedAt := Some now, b_deletedBy := Some (pr_id u)\<rparr>"
  show ?thesis
  proof (cases "b_status b = Completed")
    case False
    with assms b have "s' = booking_save s b1"
      by (auto simp: deleteBooking_def Let_def b1_def split: option.splits if_splits)
    with b False show ?thesis by auto
  next
    case True
    with assms b obtain g where g: "findById g_id (garages s) (b_garage b) = Some g"
      and s': "s' = garage_save (booking_save s b1)
                 (g\<lparr>g_stats := (g_stats g)
                    \<lparr>completedBookings := max 0 (completedBookings (g_stats g) - 1)\<rparr>\<rparr>)"
      by (auto simp: deleteBooking_def Let_def b1_def booking_save_def
          split: option.splits if_splits)
    from g have gi: "g_id g = b_garage b" by (auto dest: findById_SomeD)
    have "garage_stats s' gid =
        (if b_status b = Completed \<and> gid = b_garage b
         then map_option (\<lambda>st. st\<lparr>completedBookings := max 0 (completedBookings st - 1)\<rparr>)
                (garage_stats s gid)
         else garage_stats s gid)" for gid
      unfolding s' using g True
      by (subst garage_stats_garage_save) (auto simp: gi garage_stats_def booking_save_def)
    with b show ?thesis by blast
  qed
qed


lemma status_name_completed: "status_name st = ''completed'' \<longleftrightarrow> st = Completed"
  by (cases st) simp_all

lemma three_bookings_one_completed:
  assumes st0: "garage_stats s0 gid = Some st0" "totalBookings st0 = 0" "completedBookings st0 = 0"
    and c1: "createBooking s0 u1 r1 = (Inr b1, s1)" and g1: "b_garage b1 = gid"
    and c2: "createBooking s1 u2 r2 = (Inr b2, s2)" and g2: "b_garage b2 = gid"
    and c3: "createBooking s2 u3 r3 = (Inr b3, s3)" and g3: "b_garage b3 = gid"
    and t1: "updateBookingStatus n1 s3 a1 (Some (b_id b1)) (Some ''approved'') x1 = (Inr d1, s4)"
    and t2: "updateBookingStatus n2 s4 a2 (Some (b_id b1)) (Some ''in_progress'') x2 = (Inr d2, s5)"
    and t3: "updateBookingStatus n3 s5 a3 (Some (b_id b1)) (Some ''completed'') x3 = (Inr d3, s6)"
    and del: "deleteBooking n4 s6 a4 (Some (b_id b1)) = (Inr (), s7)"
  shows "\<exists>st6 st7. garage_stats s6 gid = Some st6 \<and> totalBookings st6 = 3 \<and>
           completedBookings st6 = 1 \<and>
           garage_stats s7 gid = Some st7 \<and> totalBookings st7 = 3 \<and> completedBookings st7 = 0"
proof -
  have s3: "garage_stats s3 gid = Some (st0\<lparr>totalBookings := 3\<rparr>)"
    using st0 by (simp add: createBooking_stats[OF c3] createBooking_stats[OF c2]
        createBooking_stats[OF c1] g1 g2 g3)
  have f3: "findById b_id (bookings s3) (b_id b1) = Some b1"
    using createBooking_finds(1)[OF c1] createBooking_finds(2)[OF c2] createBooking_finds(2)[OF c3]
    by blast
  have p1: "b_status b1 = Pending" by (rule createBooking_success(2)[OF c1])
  from updateBookingStatus_success[OF t1] f3 p1
  have u1: "status_name (b_status d1) = ''approved''" "findById b_id (bookings s4) (b_id b1) = Some d1"
      "b_garage d1 = gid" "garage_stats s4 gid = garage_stats s3 gid"
    by (auto simp: g1)
  from updateBookingStatus_success[OF t2] u1
  have u2: "status_name (b_status d2) = ''in_progress''" "findById b_id (bookings s5) (b_id b1) = Some d2"
      "b_garage d2 = gid" "garage_stats s5 gid = garage_stats s4 gid"
    by auto
  from updateBookingStatus_success[OF t3] u2
  have u3: "status_name (b_status d3) = ''completed''" "findById b_id (bookings s6) (b_id b1) = Some d3"
      "b_garage d3 = gid"
      "garage_stats s6 gid =
         map_option (\<lambda>st. st\<lparr>completedBookings := completedBookings st + 1\<rparr>) (garage_stats s5 gid)"
    by auto
  from u3(1) have fin: "b_status d3 = Completed" by (simp add: status_name_completed)
  have s6: "garage_stats s6 gid = Some (st0\<lparr>totalBookings := 3, completedBookings := 1\<rparr>)"
    using u3(4) u2(4) u1(4) s3 st0 by simp
  from deleteBooking_success[OF del] u3(2) fin u3(3)
  have "garage_stats s7 gid =
          map_option (\<lambda>st. st\<lparr>completedBookings := max 0 (completedBookings st - 1)\<rparr>)
            (garage_stats s6 gid)"
    by auto
  with s6 have s7: "garage_stats s7 gid = Some (st0\<lparr>totalBookings := 3, completedBookings := 0\<rparr>)"
    by simp
  from s6 s7 show ?thesis by simp
qed

text \<open>
  Claim C6.
  \<^item> A booking that \<open>createBooking\<close> creates raises \<open>stats.totalBookings\<close> of its
    garage by one and leaves the garage's other counters alone.
  \<^item> A transition to \<open>completed\<close> of a booking that was not completed raises
    \<open>stats.completedBookings\<close> of its garage by one and leaves the other counters alone.
  \<^item> The soft deletion of a completed booking lowers \<open>stats.completedBookings\<close> of
    its garage by one, but not below zero, and leaves \<open>totalBookings\<close> alone.
  \<^item> So when a garage starts with both counters at zero, three bookings are created
    for it, and the first is approved, put in progress and completed, the garage counts
    three bookings and one completed; after that booking is soft-deleted it counts three
    bookings and none completed.
\<close>

theorem garage_stats_maintained:
  "(\<forall>b s'. createBooking s u req = (Inr b, s') \<longrightarrow>
      (\<exists>st. garage_stats s (b_garage b) = Some st \<and>
            garage_stats s' (b_garage b) = Some (st\<lparr>totalBookings := totalBookings st + 1\<rparr>)))
   \<and> (\<forall>b b' s'. findById b_id (bookings s) i = Some b \<and> b_status b \<noteq> Completed \<and>
         updateBookingStatus now s a (Some i) (Some ''completed'') reason = (Inr b', s') \<longrightarrow>
      (\<exists>st. garage_stats s (b_garage b) = Some st \<and>
            garage_stats s' (b_garage b) =
              Some (st\<lparr>completedBookings := completedBookings st + 1\<rparr>)))
   \<and> (\<forall>b s'. findById b_id (bookings s) i = Some b \<and> b_status b = Completed \<and>
         deleteBooking now s a (Some i) = (Inr (), s') \<longrightarrow>
      (\<exists>st. garage_stats s (b_garage b) = Some st \<and>
            garage_stats s' (b_garage b) =
              Some (st\<lparr>completedBookings := max 0 (completedBookings st - 1)\<rparr>)))
   \<and> (\<forall>st0 b1 b2 b3 d1 d2 d3 s1 s2 s3 s4 s5 s6 s7.
         garage_stats s gid = Some st0 \<and> totalBookings st0 = 0 \<and> completedBookings st0 = 0 \<and>
         createBooking s u1 r1 = (Inr b1, s1) \<and> b_garage b1 = gid \<and>
         createBooking s1 u2 r2 = (Inr b2, s2) \<and> b_garage b2 = gid \<and>
         createBooking s2 u3 r3 = (Inr b3, s3) \<and> b_garage b3 = gid \<and>
         updateBookingStatus n1 s3 a1 (Some (b_id b1)) (Some ''approved'') x1 = (Inr d1, s4) \<and>
         updateBookingStatus n2 s4 a2 (Some (b_id b1)) (Some ''in_progress'') x2 = (Inr d2, s5) \<and>
         updateBookingStatus n3 s5 a3 (Some (b_id b1)) (Some ''completed'') x3 = (Inr d3, s6) \<and>
         deleteBooking n4 s6 a4 (Some (b_id b1)) = (Inr (), s7) \<longrightarrow>
      (\<exists>st6 st7. garage_stats s6 gid = Some st6 \<and> totalBookings st6 = 3 \<and>
            completedBookings st6 = 1 \<and>
            garage_stats s7 gid = Some st7 \<and> totalBookings st7 = 3 \<and>
            completedBookings st7 = 0))"
proof (intro conjI allI impI)
  fix b s'
  assume c: "createBooking s u req = (Inr b, s')"
  from createBooking_success(6)[OF c] obtain g
    where "findById g_id (garages s) (b_garage b) = Some g" by blast
  then have "garage_stats s (b_garage b) = Some (g_stats g)"
    by (simp add: garage_stats_def)
  then show "\<exists>st. garage_stats s (b_garage b) = Some st \<and>
            garage_stats s' (b_garage b) = Some (st\<lparr>totalBookings := totalBookings st + 1\<rparr>)"
    by (simp add: createBooking_stats[OF c])
next
  fix b b' s'
  assume h: "findById b_id (bookings s) i = Some b \<and> b_status b \<noteq> Completed \<and>
         updateBookingStatus now s a (Some i) (Some ''completed'') reason = (Inr b', s')"
  then have run: "updateBookingStatus now s a (Some i) (Some ''completed'') reason = (Inr b', s')"
    by simp
  from updateBookingStatus_pre[OF run] h obtain g
    where "findById g_id (garages s) (b_garage b) = Some g" by auto
  then have st: "garage_stats s (b_garage b) = Some (g_stats g)"
    by (simp add: garage_stats_def)
  from h have "''completed'' \<noteq> status_name (b_status b)"
    by (cases "b_status b") simp_all
  with updateBookingStatus_success[OF run] h
  have "garage_stats s' (b_garage b) =
          map_option (\<lambda>st. st\<lparr>completedBookings := completedBookings st + 1\<rparr>)
            (garage_stats s (b_garage b))"
    by auto
  with st show "\<exists>st. garage_stats s (b_garage b) = Some st \<and>
            garage_stats s' (b_garage b) =
              Some (st\<lparr>completedBookings := completedBookings st + 1\<rparr>)"
    by simp
next
  fix b s'
  assume h: "findById b_id (bookings s) i = Some b \<and> b_status b = Completed \<and>
         deleteBooking now s a (Some i) = (Inr (), s')"
  then have run: "deleteBooking now s a (Some i) = (Inr (), s')"
    by simp
  from run h obtain g where "findById g_id (garages s) (b_garage b) = Some g"
    by (auto simp: deleteBooking_def Let_def booking_save_def split: option.splits if_splits)
  then have st: "garage_stats s (b_garage b) = Some (g_stats g)"
    by (simp add: garage_stats_def)
  from deleteBooking_success[OF run] h
  have "garage_stats s' (b_garage b) =
          map_option (\<lambda>st. st\<lparr>completedBookings := max 0 (completedBookings st - 1)\<rparr>)
            (garage_stats s (b_garage b))"
    by auto
  with st show "\<exists>st. garage_stats s (b_garage b) = Some st \<and>
            garage_stats s' (b_garage b) =
              Some (st\<lparr>completedBookings := max 0 (completedBookings st - 1)\<rparr>)"
    by simp
next
  fix st0 b1 b2 b3 d1 d2 d3 s1 s2 s3 s4 s5 s6 s7
  assume "garage_stats s gid = Some st0 \<and> totalBookings st0 = 0 \<and> completedBookings st0 = 0 \<and>
         createBooking s u1 r1 = (Inr b1, s1) \<and> b_garage b1 = gid \<and>
         createBooking s1 u2 r2 = (Inr b2, s2) \<and> b_garage b2 = gid \<and>
         createBooking s2 u3 r3 = (Inr b3, s3) \<and> b_garage b3 = gid \<and>
         updateBookingStatus n1 s3 a1 (Some (b_id b1)) (Some ''approved'') x1 = (Inr d1, s4) \<and>
         updateBookingStatus n2 s4 a2 (Some (b_id b1)) (Some ''in_progress'') x2 = (Inr d2, s5) \<and>
         updateBookingStatus n3 s5 a3 (Some (b_id b1)) (Some ''completed'') x3 = (Inr d3, s6) \<and>
         deleteBooking n4 s6 a4 (Some (b_id b1)) = (Inr (), s7)"
  then show "\<exists>st6 st7. garage_stats s6 gid = Some st6 \<and> totalBookings st6 = 3 \<and>
            completedBookings st6 = 1 \<and>
            garage_stats s7 gid = Some st7 \<and> totalBookings st7 = 3 \<and>
            completedBookings st7 = 0"
    using three_bookings_one_completed[of s gid st0 u1 r1 b1 s1 u2 r2 b2 s2 u3 r3 b3 s3
        n1 a1 x1 d1 s4 n2 a2 x2 d2 s5 n3 a3 x3 d3 s6 n4 a4 s7]
    by blast
qed

theorem garage_stats_maintained_witness:
  "createBooking (ex_stats_store 0 0 []) ex_car_owner (ex_create_req ex_monday ex_slot)
     = (Inr (ex_booking Pending), ex_stats_store 1 0 [ex_booking Pending])
   \<and> createBooking (ex_stats_store 1 0 [ex_booking Pending]) ex_car_owner
       (ex_create_req ex_monday ex_slot2)
     = (Inr ex_booking2, ex_stats_store 2 0 [ex_booking Pending, ex_booking2])
   \<and> createBooking (ex_stats_store 2 0 [ex_booking Pending, ex_booking2]) ex_car_owner
       (ex_create_req ex_monday ex_slot3)
     = (Inr ex_booking3, ex_stats_store 3 0 [ex_booking Pending, ex_booking2, ex_booking3])
   \<and> updateBookingStatus 10 (ex_stats_store 3 0 [ex_booking Pending, ex_booking2, ex_booking3])
       ex_garage_owner (Some 1) (Some ''approved'') None
     = (Inr (ex_booking Approved),
        ex_stats_store 3 0 [ex_booking Approved, ex_booking2, ex_booking3])
   \<and> updateBookingStatus 20 (ex_stats_store 3 0 [ex_booking Approved, ex_booking2, ex_booking3])
       ex_garage_owner (Some 1) (Some ''in_progress'') None
     = (Inr (ex_booking InProgress),
        ex_stats_store 3 0 [ex_booking InProgress, ex_booking2, ex_booking3])
   \<and> updateBookingStatus 30 (ex_stats_store 3 0 [ex_booking InProgress, ex_booking2, ex_booking3])
       ex_garage_owner (Some 1) (Some ''completed'') None
     = (Inr (ex_booking Completed),
        ex_stats_store 3 1 [ex_booking Completed, ex_booking2, ex_booking3])
   \<and> deleteBooking 40 (ex_stats_store 3 1 [ex_booking Completed, ex_booking2, ex_booking3])
       ex_car_owner (Some 1)
     = (Inr (),
        ex_stats_store 3 0
          [(ex_booking Completed)\<lparr>b_isDeleted := True\<rparr>, ex_booking2, ex_booking3])
   \<and> (\<exists>st6 st7.
         garage_stats (ex_stats_store 3 1 [ex_booking Completed, ex_booking2, ex_booking3]) 1
           = Some st6 \<and> totalBookings st6 = 3 \<and> completedBookings st6 = 1 \<and>
         garage_stats (ex_stats_store 3 0
              [(ex_booking Completed)\<lparr>b_isDeleted := True\<rparr>, ex_booking2, ex_booking3]) 1
           = Some st7 \<and> totalBookings st7 = 3 \<and> completedBookings st7 = 0)
   \<and> (\<exists>st. garage_stats (ex_stats_store 0 0 []) (b_garage (ex_booking Pending)) = Some st \<and>
         garage_stats (ex_stats_store 1 0 [ex_booking Pending]) (b_garage (ex_booking Pending))
           = Some (st\<lparr>totalBookings := totalBookings st + 1\<rparr>))
   \<and> (\<exists>st. garage_stats (ex_stats_store 3 0 [ex_booking InProgress, ex_booking2, ex_booking3])
           (b_garage (ex_booking InProgress)) = Some st \<and>
         garage_stats (ex_stats_store 3 1 [ex_booking Completed, ex_booking2, ex_booking3])
           (b_garage (ex_booking InProgress))
           = Some (st\<lparr>completedBookings := completedBookings st + 1\<rparr>))
   \<and> (\<exists>st. garage_stats (ex_stats_store 3 1 [ex_booking Completed, ex_booking2, ex_booking3])
           (b_garage (ex_booking Completed)) = Some st \<and>
         garage_stats (ex_stats_store 3 0
              [(ex_booking Completed)\<lparr>b_isDeleted := True\<rparr>, ex_booking2, ex_booking3])
           (b_garage (ex_booking Completed))
           = Some (st\<lparr>completedBookings := max 0 (completedBookings st - 1)\<rparr>))"
proof -
  have e1: "createBooking (ex_stats_store 0 0 []) ex_car_owner (ex_create_req ex_monday ex_slot)
     = (Inr (ex_booking Pending), ex_stats_store 1 0 [ex_booking Pending])"
    by code_simp
  have e2: "createBooking (ex_stats_store 1 0 [ex_booking Pending]) ex_car_owner
       (ex_create_req ex_monday ex_slot2)
     = (Inr ex_booking2, ex_stats_store 2 0 [ex_booking Pending, ex_booking2])"
    by code_simp
  have e3: "createBooking (ex_stats_store 2 0 [ex_booking Pending, ex_booking2]) ex_car_owner
       (ex_create_req ex_monday ex_slot3)
     = (Inr ex_booking3, ex_stats_store 3 0 [ex_booking Pending, ex_booking2, ex_booking3])"
    by code_simp
  have e4: "updateBookingStatus 10
       (ex_stats_store 3 0 [ex_booking Pending, ex_booking2, ex_booking3])
       ex_garage_owner (Some 1) (Some ''approved'') None
     = (Inr (ex_booking Approved),
        ex_stats_store 3 0 [ex_booking Approved, ex_booking2, ex_booking3])"
    by code_simp
  have e5: "updateBookingStatus 20
       (ex_stats_store 3 0 [ex_booking Approved, ex_booking2, ex_booking3])
       ex_garage_owner (Some 1) (Some ''in_progress'') None
     = (Inr (ex_booking InProgress),
        ex_stats_store 3 0 [ex_booking InProgress, ex_booking2, ex_booking3])"
    by code_simp
  have e6: "updateBookingStatus 30
       (ex_stats_store 3 0 [ex_booking InProgress, ex_booking2, ex_booking3])
       ex_garage_owner (Some 1) (Some ''completed'') None
     = (Inr (ex_booking Completed),
        ex_stats_store 3 1 [ex_booking Completed, ex_booking2, ex_booking3])"
    by code_simp
  have e7: "deleteBooking 40 (ex_stats_store 3 1 [ex_booking Completed, ex_booking2, ex_booking3])
       ex_car_owner (Some 1)
     = (Inr (),
        ex_stats_store 3 0
          [(ex_booking Completed)\<lparr>b_isDeleted := True\<rparr>, ex_booking2, ex_booking3])"
    by code_simp
  have st0: "garage_stats (ex_stats_store 0 0 []) 1
               = Some \<lparr>totalBookings = 0, completedBookings = 0, totalReviews = 0\<rparr>"
    by code_simp
  have gs: "b_garage (ex_booking Pending) = 1" "b_garage ex_booking2 = 1" "b_garage ex_booking3 = 1"
      "b_id (ex_booking Pending) = 1"
    by (simp_all add: ex_booking_def ex_booking2_def ex_booking3_def)
  note scenario = garage_stats_maintained
    [where s = "ex_stats_store 0 0 []" and gid = 1 and ?u1.0 = ex_car_owner
       and ?r1.0 = "ex_create_req ex_monday ex_slot" and ?u2.0 = ex_car_owner
       and ?r2.0 = "ex_create_req ex_monday ex_slot2" and ?u3.0 = ex_car_owner
       and ?r3.0 = "ex_create_req ex_monday ex_slot3"
       and ?n1.0 = 10 and ?a1.0 = ex_garage_owner and ?x1.0 = None
       and ?n2.0 = 20 and ?a2.0 = ex_garage_owner and ?x2.0 = None
       and ?n3.0 = 30 and ?a3.0 = ex_garage_owner and ?x3.0 = None
       and ?n4.0 = 40 and ?a4.0 = ex_car_owner,
     THEN conjunct2, THEN conjunct2, THEN conjunct2, rule_format,
     of "\<lparr>totalBookings = 0, completedBookings = 0, totalReviews = 0\<rparr>"
        "ex_booking Pending" "ex_stats_store 1 0 [ex_booking Pending]"
        ex_booking2 "ex_stats_store 2 0 [ex_booking Pending, ex_booking2]"
        ex_booking3 "ex_stats_store 3 0 [ex_booking Pending, ex_booking2, ex_booking3]"
        "ex_booking Approved" "ex_stats_store 3 0 [ex_booking Approved, ex_booking2, ex_booking3]"
        "ex_booking InProgress"
        "ex_stats_store 3 0 [ex_booking InProgress, ex_booking2, ex_booking3]"
        "ex_booking Completed"
        "ex_stats_store 3 1 [ex_booking Completed, ex_booking2, ex_booking3]"
        "ex_stats_store 3 0
          [(ex_booking Completed)\<lparr>b_isDeleted := True\<rparr>, ex_booking2, ex_booking3]"]
  have "\<exists>st6 st7.
         garage_stats (ex_stats_store 3 1 [ex_booking Completed, ex_booking2, ex_booking3]) 1
           = Some st6 \<and> totalBookings st6 = 3 \<and> completedBookings st6 = 1 \<and>
         garage_stats (ex_stats_store 3 0
              [(ex_booking Completed)\<lparr>b_isDeleted := True\<rparr>, ex_booking2, ex_booking3]) 1
           = Some st7 \<and> totalBookings st7 = 3 \<and> completedBookings st7 = 0"
    by (rule scenario) (use st0 e1 e2 e3 e4 e5 e6 e7 gs in simp)
  note all = this
  have f6: "findById b_id
              (bookings (ex_stats_store 3 0 [ex_booking InProgress, ex_booking2, ex_booking3])) 1
              = Some (ex_booking InProgress)"
      "b_status (ex_booking InProgress) \<noteq> Completed"
    by (simp_all add: findById_def ex_stats_store_def ex_store_def ex_booking_def)
  have f7: "findById b_id
              (bookings (ex_stats_store 3 1 [ex_booking Completed, ex_booking2, ex_booking3])) 1
              = Some (ex_booking Completed)"
      "b_status (ex_booking Completed) = Completed"
    by (simp_all add: findById_def ex_stats_store_def ex_store_def ex_booking_def)
  note created = garage_stats_maintained
    [where s = "ex_stats_store 0 0 []" and u = ex_car_owner
       and req = "ex_create_req ex_monday ex_slot", THEN conjunct1, rule_format, OF e1]
  note completed = garage_stats_maintained
    [where s = "ex_stats_store 3 0 [ex_booking InProgress, ex_booking2, ex_booking3]"
       and i = 1 and now = 30 and a = ex_garage_owner and reason = None,
     THEN conjunct2, THEN conjunct1, rule_format, OF conjI, OF f6(1) conjI, OF f6(2) e6]
  note deleted = garage_stats_maintained
    [where s = "ex_stats_store 3 1 [ex_booking Completed, ex_booking2, ex_booking3]"
       and i = 1 and now = 40 and a = ex_car_owner,
     THEN conjunct2, THEN conjunct2, THEN conjunct1, rule_format, OF conjI, OF f7(1) conjI,
     OF f7(2) e7]
  from e1 e2 e3 e4 e5 e6 e7 all created completed deleted show ?thesis
    by (intro conjI)
qed

section \<open>One booking per slot\<close>

lemma occupies_same_slot:
  "occupies gid d ts b \<Longrightarrow>
   occupies gid d ts = occupies (b_garage b) (b_bookingDate b) (b_timeSlot b)"
  by (auto simp: occupies_def fun_eq_iff)

lemma existingBooking_None_iff:
  "existingBooking s gid d ts = None \<longleftrightarrow> filter (occupies gid d ts) (bookings s) = []"
  by (auto simp: existingBooking_def find_None_iff filter_empty_conv)

lemma filter_updateOne_le:
  assumes "\<And>x. List.find P xs = Some x \<Longrightarrow> Q (f x) \<Longrightarrow> Q x"
  shows "length (filter Q (updateOne P f xs)) \<le> length (filter Q xs)"
  using assms by (induction xs) (auto split: if_splits)

text \<open>
  What \<open>createBooking\<close> does about a conflict: when garage and service pass their
  checks and a booking occupies the slot, the request is refused and nothing is written;
  when it succeeds, no booking occupied the slot and the new booking is pending.
\<close>

lemma createBooking_conflict:
  assumes "cr_garageId req = Some gid" "cr_serviceId req = Some sid"
    "cr_bookingDate req = Some d" "cr_timeSlot req = Some ts" "cr_vehicleInfo req = Some v"
    and "findByIdWhere g_id (garages s) gid (\<lambda>g. \<not> g_isDeleted g \<and> g_status g = GActive) = Some g"
    and "findByIdWhere s_id (services s) sid
           (\<lambda>sv. s_garage sv = gid \<and> \<not> s_isDeleted sv \<and> s_isAvailable sv) = Some sv"
    and "existingBooking s gid d ts \<noteq> None"
  shows "createBooking s u req = (Inl (400, ''Time slot already booked''), s)"
  using assms by (simp add: createBooking_def)

lemma createBooking_no_conflict:
  assumes "createBooking s u req = (Inr b, s')"
  shows "existingBooking s (b_garage b) (b_bookingDate b) (b_timeSlot b) = None"
  using assms
  by (auto simp: createBooking_def Let_def split: option.splits if_splits)

text \<open>The handlers of the booking controller keep the invariant.\<close>

lemma createBooking_one_per_slot:
  assumes "one_per_slot s"
  shows "one_per_slot (snd (createBooking s u req))"
proof (cases "\<exists>b s'. createBooking s u req = (Inr b, s')")
  case True
  then obtain b s' where ok: "createBooking s u req = (Inr b, s')" by blast
  have free: "filter (occupies (b_garage b) (b_bookingDate b) (b_timeSlot b)) (bookings s) = []"
    using createBooking_no_conflict[OF ok] by (simp add: existingBooking_None_iff)
  have "length (filter (occupies gid d ts) (bookings s')) \<le> 1" for gid d ts
  proof (cases "occupies gid d ts b")
    case True
    with free show ?thesis
      by (simp add: createBooking_success(5)[OF ok] occupies_same_slot[OF True])
  next
    case False
    with assms show ?thesis
      by (simp add: createBooking_success(5)[OF ok] one_per_slot_def)
  qed
  with ok show ?thesis by (simp add: one_per_slot_def)
next
  case False
  then have "snd (createBooking s u req) = s"
    by (auto simp: createBooking_def Let_def split: option.splits if_splits)
  with assms show ?thesis by simp
qed

lemma booking_save_one_per_slot:
  assumes "one_per_slot s"
    and "\<And>x gid d ts. findById b_id (bookings s) (b_id b) = Some x \<Longrightarrow>
           occupies gid d ts (booking_persisted b) \<Longrightarrow> occupies gid d ts x"
  shows "one_per_slot (booking_save s b)"
proof -
  have "length (filter (occupies gid d ts) (bookings (booking_save s b)))
          \<le> length (filter (occupies gid d ts) (bookings s))" for gid d ts
    unfolding booking_save_def using assms(2)
    by (simp add: filter_updateOne_le findById_def)
  with assms(1) show ?thesis
    unfolding one_per_slot_def by (meson order_trans)
qed

lemma one_per_slot_garage_save [simp]: "one_per_slot (garage_save s g) = one_per_slot s"
  by (simp add: one_per_slot_def)

lemma occupies_persisted [simp]:
  "occupies gid d ts (booking_persisted b) = occupies gid d ts b"
  by (simp add: occupies_def booking_persisted_def)

lemma occupies_push_history [simp]:
  "occupies gid d ts (push_history b e) = occupies gid d ts b"
  by (simp add: occupies_def push_history_def)

lemma cancelBooking_one_per_slot:
  assumes "one_per_slot s"
  shows "one_per_slot (snd (cancelBooking now s u ident reason))"
proof (cases "\<exists>c s'. cancelBooking now s u ident reason = (Inr c, s')")
  case True
  then obtain c s' where ok: "cancelBooking now s u ident reason = (Inr c, s')" by blast
  then obtain b e where "s' = booking_save s (push_history (b\<lparr>b_status := Cancelled\<rparr>) e)"
    by (auto simp: cancelBooking_def Let_def split: option.splits if_splits)
  moreover have "one_per_slot (booking_save s (push_history (b\<lparr>b_status := Cancelled\<rparr>) e))"
    by (rule booking_save_one_per_slot[OF assms])
      (simp add: occupies_def push_history_def booking_persisted_def)
  ultimately show ?thesis using ok by simp
next
  case False
  then have "snd (cancelBooking now s u ident reason) = s"
    by (auto simp: cancelBooking_def Let_def split: option.splits if_splits)
  with assms show ?thesis by simp
qed

lemma deleteBooking_one_per_slot:
  assumes "one_per_slot s"
  shows "one_per_slot (snd (deleteBooking now s u ident))"
proof -
  have "snd (deleteBooking now s u ident) = s \<or>
        (\<exists>b. one_per_slot (snd (deleteBooking now s u ident)) =
               one_per_slot (booking_save s (b\<lparr>b_isDeleted := True, b_deletedAt := Some now,
                                               b_deletedBy := Some (pr_id u)\<rparr>)))"
    by (auto simp: deleteBooking_def Let_def split: option.splits if_splits)
  moreover have "one_per_slot (booking_save s (b\<lparr>b_isDeleted := True, b_deletedAt := Some now,
                                               b_deletedBy := Some (pr_id u)\<rparr>))" for b
    by (rule booking_save_one_per_slot[OF assms])
      (simp add: occupies_def push_history_def booking_persisted_def)
  ultimately show ?thesis using assms by auto
qed

lemma updateBookingStatus_error:
  "updateBookingStatus now s u ident status_req reason = (Inl e, s') \<Longrightarrow> s' = s"
  by (auto simp: updateBookingStatus_def Let_def split: option.splits if_splits)

lemma updateBookingStatus_store:
  "snd (updateBookingStatus now s u ident status_req reason) = s \<or>
   (\<exists>i b g st e target. findById b_id (bookings s) i = Some b \<and>
      target \<in> set (validTransitions (b_status b)) \<and>
      snd (updateBookingStatus now s u ident status_req reason) =
        booking_save (if target = ''completed'' then garage_save s g else s)
          (push_history (b\<lparr>b_status := st\<rparr>) e))"
proof (cases "updateBookingStatus now s u ident status_req reason")
  case (Pair r s')
  show ?thesis
  proof (cases r)
    case (Inl e)
    with Pair have "s' = s" by (auto dest: updateBookingStatus_error)
    with Pair show ?thesis by simp
  next
    case (Inr b')
    with Pair have ok: "updateBookingStatus now s u ident status_req reason = (Inr b', s')"
      by simp
  then obtain i target where args: "ident = Some i" "status_req = Some target"
    by (cases ident; cases status_req) (simp_all add: updateBookingStatus_def)
  from updateBookingStatus_pre[OF ok[unfolded args]] obtain b g
    where pre: "findById b_id (bookings s) i = Some b" "\<not> b_isDeleted b"
      "findById g_id (garages s) (b_garage b) = Some g"
      "g_owner g = pr_id u \<or> pr_role u = Admin" "target \<noteq> []"
    by blast
  show ?thesis
  proof (cases "target = status_name (b_status b)")
    case True
    from update_same[OF pre True, of now reason] show ?thesis by (simp add: args)
  next
    case False
    show ?thesis
    proof (cases "(status_name (b_status b), target) \<in> set spec_transitions")
      case no: False
      from update_invalid[OF pre False no, of now reason] show ?thesis by (simp add: args)
    next
      case yes: True
      then have "target \<in> set (validTransitions (b_status b))"
        by (simp add: in_validTransitions_iff)
      with update_valid_result[OF pre False yes, of now reason] pre(1) show ?thesis
        unfolding args by (metis snd_conv)
    qed
  qed
  qed
qed

lemma updateBookingStatus_one_per_slot:
  assumes "one_per_slot s"
  shows "one_per_slot (snd (updateBookingStatus now s u ident status_req reason))"
proof -
  have "one_per_slot (booking_save (if target = ''completed'' then garage_save s g else s)
                         (push_history (b\<lparr>b_status := st\<rparr>) e))"
    if found: "findById b_id (bookings s) i = Some b"
      and valid: "target \<in> set (validTransitions (b_status b))"
    for i b g st e target
  proof (rule booking_save_one_per_slot)
    show "one_per_slot (if target = ''completed'' then garage_save s g else s)"
      using assms by simp
  next
    fix x gid d ts
    assume x: "findById b_id (bookings (if target = ''completed'' then garage_save s g else s))
                 (b_id (push_history (b\<lparr>b_status := st\<rparr>) e)) = Some x"
      and occ: "occupies gid d ts (booking_persisted (push_history (b\<lparr>b_status := st\<rparr>) e))"
    from found have "b_id b = i" by (auto dest: findById_SomeD)
    with x found have "x = b" by (simp add: push_history_def split: if_splits)
    moreover from valid have "b_status b \<notin> {Cancelled, Rejected}"
      by (cases "b_status b") simp_all
    ultimately show "occupies gid d ts x"
      using occ by (simp add: occupies_def push_history_def booking_persisted_def)
  qed
  with updateBookingStatus_store[of now s u ident status_req reason] assms
  show ?thesis by auto
qed


text \<open>
  The payment handlers write to a booking only through a stored payment of type
  \<open>booking\<close>. On a store that holds none they leave the bookings as they are, and the
  payment they save keeps its type.
\<close>

lemma list_all_updateOne:
  "list_all Q xs \<Longrightarrow> Q y \<Longrightarrow> list_all Q (updateOne P (\<lambda>_. y) xs)"
  by (induction xs) auto

lemma bookings_payment_save [simp]: "bookings (payment_save now s p) = bookings s"
  by (simp add: payment_save_def user_grant_def Let_def)

lemma payments_payment_save [simp]:
  "payments (payment_save now s p) = updateOne (\<lambda>x. p_id x = p_id p) (\<lambda>_. p) (payments s)"
  by (simp add: payment_save_def user_grant_def Let_def)

lemma no_booking_payment_found:
  "no_booking_payment s \<Longrightarrow> List.find P (payments s) = Some p \<Longrightarrow>
   p_paymentType p \<noteq> BookingPayment"
  by (auto simp: no_booking_payment_def list_all_iff dest: find_SomeD)

lemma no_booking_payment_save:
  "no_booking_payment s \<Longrightarrow> p_paymentType p \<noteq> BookingPayment \<Longrightarrow>
   no_booking_payment (payment_save now s p)"
  by (simp add: no_booking_payment_def list_all_updateOne)

lemma handleChapaWebhook_bookings:
  assumes "no_booking_payment s"
  shows "bookings (snd (handleChapaWebhook hmac now s req)) = bookings s"
proof (cases "List.find (\<lambda>p. p_transactionId p = Some (cp_tx_ref (wr_payload req))) (payments s)")
  case None
  then show ?thesis by (simp add: handleChapaWebhook_def Let_def)
next
  case (Some p)
  with assms have "p_paymentType p \<noteq> BookingPayment" by (rule no_booking_payment_found)
  with Some show ?thesis
    by (cases "p_paymentType p")
       (simp_all add: handleChapaWebhook_def Let_def user_grant_def split: option.splits)
qed

lemma handleChapaWebhook_no_booking_payment:
  assumes "no_booking_payment s"
  shows "no_booking_payment (snd (handleChapaWebhook hmac now s req))"
proof (cases "List.find (\<lambda>p. p_transactionId p = Some (cp_tx_ref (wr_payload req))) (payments s)")
  case None
  with assms show ?thesis by (simp add: handleChapaWebhook_def Let_def)
next
  case (Some p)
  with assms have "p_paymentType p \<noteq> BookingPayment" by (rule no_booking_payment_found)
  with Some assms show ?thesis
    by (cases "p_paymentType p")
       (simp_all add: handleChapaWebhook_def Let_def user_grant_def no_booking_payment_def
          list_all_updateOne split: option.splits)
qed

lemma verifyPayment_bookings:
  assumes "no_booking_payment s"
  shows "bookings (snd (verifyPayment chapa now s tx_ref)) = bookings s"
proof (cases "List.find (\<lambda>p. p_transactionId p = Some tx_ref) (payments s)")
  case None
  then show ?thesis by (simp add: verifyPayment_def split: sum.splits)
next
  case (Some p)
  with assms have "p_paymentType p \<noteq> BookingPayment" by (rule no_booking_payment_found)
  with Some show ?thesis
    by (cases "p_paymentType p")
       (simp_all add: verifyPayment_def Let_def split: sum.splits option.splits)
qed

lemma verifyPayment_no_booking_payment:
  assumes "no_booking_payment s"
  shows "no_booking_payment (snd (verifyPayment chapa now s tx_ref))"
proof (cases "List.find (\<lambda>p. p_transactionId p = Some tx_ref) (payments s)")
  case None
  with assms show ?thesis by (simp add: verifyPayment_def split: sum.splits)
next
  case (Some p)
  with assms have "p_paymentType p \<noteq> BookingPayment" by (rule no_booking_payment_found)
  with Some assms show ?thesis
    by (cases "p_paymentType p")
       (simp_all add: verifyPayment_def Let_def no_booking_payment_def list_all_updateOne
          split: sum.splits option.splits)
qed

lemma one_per_slot_cong: "bookings s' = bookings s \<Longrightarrow> one_per_slot s' = one_per_slot s"
  by (simp add: one_per_slot_def)

text \<open>The handlers of the booking controller do not write to the payments.\<close>

lemma payments_garage_save [simp]: "payments (garage_save s g) = payments s"
  by (simp add: garage_save_def)

lemma payments_booking_save [simp]: "payments (booking_save s b) = payments s"
  by (simp add: booking_save_def)

lemma createBooking_payments: "payments (snd (createBooking s u req)) = payments s"
  by (auto simp: createBooking_def Let_def split: option.splits if_splits)

lemma updateBookingStatus_payments:
  "payments (snd (updateBookingStatus now s u ident status_req reason)) = payments s"
  using updateBookingStatus_store[of now s u ident status_req reason] by auto

lemma cancelBooking_payments:
  "payments (snd (cancelBooking now s u ident reason)) = payments s"
  by (auto simp: cancelBooking_def Let_def split: option.splits if_splits)

lemma deleteBooking_payments:
  "payments (snd (deleteBooking now s u ident)) = payments s"
  by (auto simp: deleteBooking_def Let_def split: option.splits if_splits)

lemma no_booking_payment_cong:
  "payments s' = payments s \<Longrightarrow> no_booking_payment s' = no_booking_payment s"
  by (simp add: no_booking_payment_def)

lemma createBooking_request:
  assumes "createBooking s u req = (Inr b, s')"
  shows "cr_bookingDate req = Some (b_bookingDate b)"
    and "cr_timeSlot req = Some (b_timeSlot b)"
  using assms
  by (auto simp: createBooking_def Let_def split: option.splits if_splits)

lemma one_per_slot_short: "length (bookings s) \<le> 1 \<Longrightarrow> one_per_slot s"
  unfolding one_per_slot_def by (meson length_filter_le order_trans)

text \<open>
  Claim C1, as stated, does not hold of the code. The conflict query compares
  \<open>bookingDate\<close> as a \<open>Date\<close> value, an instant, and neither the handler nor the schema
  brings a request's date to the start of its day. Car owner 20 books the example slot
  with \<open>bookingDate\<close> 2024-06-10 (midnight UTC); car owner 21 books the same slot of the
  same garage with \<open>bookingDate\<close> 2024-06-10T12:00:00Z. Both requests succeed, and two
  pending bookings are stored for the same garage, calendar date, start and end.
\<close>

theorem same_day_bookings_both_accepted:
  "createBooking (ex_store []) ex_car_owner (ex_create_req ex_monday ex_slot)
     = (Inr (ex_booking Pending), ex_stats_store 1 0 [ex_booking Pending])
   \<and> createBooking (ex_stats_store 1 0 [ex_booking Pending]) ex_second_car_owner
       (ex_create_req ex_monday_noon ex_slot)
     = (Inr ex_noon_booking, ex_stats_store 2 0 [ex_booking Pending, ex_noon_booking])
   \<and> calendar_day ex_monday_noon = calendar_day ex_monday
   \<and> filter (occupies_day 1 (calendar_day ex_monday) ex_slot)
         [ex_booking Pending, ex_noon_booking]
     = [ex_booking Pending, ex_noon_booking]"
  by code_simp

text \<open>
  Claim C1, amended: the slot is the tuple of garage, \<open>bookingDate\<close> as the stored
  instant, start and end. When the request is complete and its garage and service pass
  their checks, \<open>createBooking\<close> answers 400 \<open>Time slot already booked\<close> and writes
  nothing whenever a booking that is neither cancelled nor rejected nor soft-deleted has
  the same garage, instant, start and end. When \<open>createBooking\<close> succeeds, no such
  booking existed for the request's garage, instant, start and end, and the booking it
  appends is pending and not deleted. On a store where every such tuple is occupied by
  at most one booking, the same holds after \<open>createBooking\<close>, \<open>updateBookingStatus\<close>,
  \<open>cancelBooking\<close> and \<open>deleteBooking\<close>, and, when no stored payment is of type
  \<open>booking\<close>, after \<open>handleChapaWebhook\<close> and \<open>verifyPayment\<close>; none of the six
  handlers stores a payment of type \<open>booking\<close> where there was none.
\<close>

theorem slot_conflict_by_instant:
  "(cr_garageId req = Some gid \<and> cr_serviceId req = Some sid \<and> cr_bookingDate req = Some d \<and>
    cr_timeSlot req = Some ts \<and> cr_vehicleInfo req = Some v \<and>
    findByIdWhere g_id (garages s) gid (\<lambda>g. \<not> g_isDeleted g \<and> g_status g = GActive) \<noteq> None \<and>
    findByIdWhere s_id (services s) sid
      (\<lambda>sv. s_garage sv = gid \<and> \<not> s_isDeleted sv \<and> s_isAvailable sv) \<noteq> None \<and>
    existingBooking s gid d ts \<noteq> None
    \<longrightarrow> createBooking s u req = (Inl (400, ''Time slot already booked''), s))
   \<and> (createBooking s u req = (Inr b, s')
    \<longrightarrow> cr_garageId req = Some (b_garage b) \<and> cr_bookingDate req = Some (b_bookingDate b) \<and>
        cr_timeSlot req = Some (b_timeSlot b) \<and>
        existingBooking s (b_garage b) (b_bookingDate b) (b_timeSlot b) = None \<and>
        b_status b = Pending \<and> \<not> b_isDeleted b \<and> bookings s' = bookings s @ [b])
   \<and> (one_per_slot s
    \<longrightarrow> one_per_slot (snd (createBooking s u req)) \<and>
        one_per_slot (snd (updateBookingStatus now s u ident status_req reason)) \<and>
        one_per_slot (snd (cancelBooking now s u ident reason)) \<and>
        one_per_slot (snd (deleteBooking now s u ident)))
   \<and> (one_per_slot s \<and> no_booking_payment s
    \<longrightarrow> one_per_slot (snd (handleChapaWebhook hmac now s notification)) \<and>
        one_per_slot (snd (verifyPayment chapa now s tx_ref)))
   \<and> (no_booking_payment s
    \<longrightarrow> no_booking_payment (snd (createBooking s u req)) \<and>
        no_booking_payment (snd (updateBookingStatus now s u ident status_req reason)) \<and>
        no_booking_payment (snd (cancelBooking now s u ident reason)) \<and>
        no_booking_payment (snd (deleteBooking now s u ident)) \<and>
        no_booking_payment (snd (handleChapaWebhook hmac now s notification)) \<and>
        no_booking_payment (snd (verifyPayment chapa now s tx_ref)))"
proof -
  have conflict: "createBooking s u req = (Inl (400, ''Time slot already booked''), s)"
    if "cr_garageId req = Some gid" "cr_serviceId req = Some sid" "cr_bookingDate req = Some d"
      "cr_timeSlot req = Some ts" "cr_vehicleInfo req = Some v"
      "findByIdWhere g_id (garages s) gid (\<lambda>g. \<not> g_isDeleted g \<and> g_status g = GActive) \<noteq> None"
      "findByIdWhere s_id (services s) sid
         (\<lambda>sv. s_garage sv = gid \<and> \<not> s_isDeleted sv \<and> s_isAvailable sv) \<noteq> None"
      "existingBooking s gid d ts \<noteq> None"
  proof -
    from that(6) obtain g where
      "findByIdWhere g_id (garages s) gid (\<lambda>g. \<not> g_isDeleted g \<and> g_status g = GActive) = Some g"
      by blast
    moreover from that(7) obtain sv where
      "findByIdWhere s_id (services s) sid
         (\<lambda>sv. s_garage sv = gid \<and> \<not> s_isDeleted sv \<and> s_isAvailable sv) = Some sv"
      by blast
    ultimately show ?thesis
      using that(1-5,8) by (simp add: createBooking_def)
  qed
  have success: "cr_garageId req = Some (b_garage b) \<and> cr_bookingDate req = Some (b_bookingDate b) \<and>
        cr_timeSlot req = Some (b_timeSlot b) \<and>
        existingBooking s (b_garage b) (b_bookingDate b) (b_timeSlot b) = None \<and>
        b_status b = Pending \<and> \<not> b_isDeleted b \<and> bookings s' = bookings s @ [b]"
    if ok: "createBooking s u req = (Inr b, s')"
    using createBooking_success(1,2,3,5)[OF ok] createBooking_request[OF ok]
      createBooking_no_conflict[OF ok]
    by simp
  have booking_handlers: "one_per_slot (snd (createBooking s u req)) \<and>
        one_per_slot (snd (updateBookingStatus now s u ident status_req reason)) \<and>
        one_per_slot (snd (cancelBooking now s u ident reason)) \<and>
        one_per_slot (snd (deleteBooking now s u ident))"
    if "one_per_slot s"
    using that
    by (simp add: createBooking_one_per_slot updateBookingStatus_one_per_slot
        cancelBooking_one_per_slot deleteBooking_one_per_slot)
  have payment_handlers: "one_per_slot (snd (handleChapaWebhook hmac now s notification)) \<and>
        one_per_slot (snd (verifyPayment chapa now s tx_ref))"
    if "one_per_slot s" "no_booking_payment s"
    using that
    by (simp add: one_per_slot_cong[OF handleChapaWebhook_bookings]
        one_per_slot_cong[OF verifyPayment_bookings])
  have payments_kept: "no_booking_payment (snd (createBooking s u req)) \<and>
        no_booking_payment (snd (updateBookingStatus now s u ident status_req reason)) \<and>
        no_booking_payment (snd (cancelBooking now s u ident reason)) \<and>
        no_booking_payment (snd (deleteBooking now s u ident)) \<and>
        no_booking_payment (snd (handleChapaWebhook hmac now s notification)) \<and>
        no_booking_payment (snd (verifyPayment chapa now s tx_ref))"
    if "no_booking_payment s"
    using that
    by (simp add: no_booking_payment_cong[OF createBooking_payments]
        no_booking_payment_cong[OF updateBookingStatus_payments]
        no_booking_payment_cong[OF cancelBooking_payments]
        no_booking_payment_cong[OF deleteBooking_payments]
        handleChapaWebhook_no_booking_payment verifyPayment_no_booking_payment)
  from conflict success booking_handlers payment_handlers payments_kept
  show ?thesis by blast
qed

theorem slot_conflict_by_instant_witness:
  "createBooking (ex_stats_store 1 0 [ex_booking Pending]) ex_second_car_owner
       (ex_create_req ex_monday ex_slot)
     = (Inl (400, ''Time slot already booked''), ex_stats_store 1 0 [ex_booking Pending])
   \<and> createBooking (ex_store []) ex_car_owner (ex_create_req ex_monday ex_slot)
     = (Inr (ex_booking Pending), ex_stats_store 1 0 [ex_booking Pending])
   \<and> existingBooking (ex_store []) 1 ex_monday ex_slot = None
   \<and> one_per_slot (ex_stats_store 1 0 [ex_booking Pending])
   \<and> one_per_slot (snd (createBooking (ex_stats_store 1 0 [ex_booking Pending])
                          ex_garage_owner (ex_create_req ex_monday ex_slot2)))
   \<and> one_per_slot (snd (updateBookingStatus 100 (ex_stats_store 1 0 [ex_booking Pending])
                          ex_garage_owner (Some 1) (Some ''approved'') None))
   \<and> one_per_slot (snd (cancelBooking 100 (ex_stats_store 1 0 [ex_booking Pending])
                          ex_car_owner (Some 1) None))
   \<and> one_per_slot (snd (deleteBooking 100 (ex_stats_store 1 0 [ex_booking Pending])
                          ex_car_owner (Some 1)))
   \<and> no_booking_payment (ex_pay_store ex_garage [ex_booking Pending] ex_creation_payment)
   \<and> fst (handleChapaWebhook ex_hmac 300
             (ex_pay_store ex_garage [ex_booking Pending] ex_creation_payment)
             ex_creation_notification) = Inr ()
   \<and> one_per_slot (snd (handleChapaWebhook ex_hmac 300
                          (ex_pay_store ex_garage [ex_booking Pending] ex_creation_payment)
                          ex_creation_notification))
   \<and> one_per_slot (snd (verifyPayment (\<lambda>_. Inr ''success'') 300
                          (ex_pay_store ex_garage [ex_booking Pending] ex_creation_payment)
                          ''garage-1-tx''))
   \<and> no_booking_payment (snd (handleChapaWebhook ex_hmac 300
                          (ex_pay_store ex_garage [ex_booking Pending] ex_creation_payment)
                          ex_creation_notification))
   \<and> no_booking_payment (snd (createBooking
                          (ex_pay_store ex_garage [ex_booking Pending] ex_creation_payment)
                          ex_second_car_owner (ex_create_req ex_monday ex_slot2)))"
proof -
  let ?A = "ex_stats_store 1 0 [ex_booking Pending]"
  let ?P = "ex_pay_store ex_garage [ex_booking Pending] ex_creation_payment"
  have A: "one_per_slot ?A" by (rule one_per_slot_short) code_simp
  have P: "one_per_slot ?P" by (rule one_per_slot_short) code_simp
  have nP: "no_booking_payment ?P" by code_simp
  have hyp: "cr_garageId (ex_create_req ex_monday ex_slot) = Some 1 \<and>
      cr_serviceId (ex_create_req ex_monday ex_slot) = Some 5 \<and>
      cr_bookingDate (ex_create_req ex_monday ex_slot) = Some ex_monday \<and>
      cr_timeSlot (ex_create_req ex_monday ex_slot) = Some ex_slot \<and>
      cr_vehicleInfo (ex_create_req ex_monday ex_slot) = Some ex_vehicle \<and>
      findByIdWhere g_id (garages ?A) 1 (\<lambda>g. \<not> g_isDeleted g \<and> g_status g = GActive) \<noteq> None \<and>
      findByIdWhere s_id (services ?A) 5
        (\<lambda>sv. s_garage sv = 1 \<and> \<not> s_isDeleted sv \<and> s_isAvailable sv) \<noteq> None \<and>
      existingBooking ?A 1 ex_monday ex_slot \<noteq> None"
    by code_simp
  have ok: "createBooking (ex_store []) ex_car_owner (ex_create_req ex_monday ex_slot)
              = (Inr (ex_booking Pending), ?A)"
    by code_simp
  have fields: "b_garage (ex_booking Pending) = 1 \<and> b_bookingDate (ex_booking Pending) = ex_monday \<and>
      b_timeSlot (ex_booking Pending) = ex_slot"
    by code_simp
  have accepted: "fst (handleChapaWebhook ex_hmac 300 ?P ex_creation_notification) = Inr ()"
    by code_simp
  note refused = slot_conflict_by_instant[where s = ?A and u = ex_second_car_owner
      and req = "ex_create_req ex_monday ex_slot" and gid = 1 and sid = 5 and d = ex_monday
      and ts = ex_slot and v = ex_vehicle, THEN conjunct1, THEN mp, OF hyp]
  note free = slot_conflict_by_instant[where s = "ex_store []" and u = ex_car_owner
      and req = "ex_create_req ex_monday ex_slot" and b = "ex_booking Pending" and s' = ?A,
      THEN conjunct2, THEN conjunct1, THEN mp, OF ok]
  note owner = slot_conflict_by_instant[where s = ?A and u = ex_garage_owner
      and req = "ex_create_req ex_monday ex_slot2" and now = 100 and ident = "Some 1"
      and status_req = "Some ''approved''" and reason = None,
      THEN conjunct2, THEN conjunct2, THEN conjunct1, THEN mp, OF A]
  note driver = slot_conflict_by_instant[where s = ?A and u = ex_car_owner
      and now = 100 and ident = "Some 1" and reason = None,
      THEN conjunct2, THEN conjunct2, THEN conjunct1, THEN mp, OF A]
  note provider = slot_conflict_by_instant[where s = ?P and now = 300 and hmac = ex_hmac
      and notification = ex_creation_notification and chapa = "\<lambda>_. Inr ''success''"
      and tx_ref = "''garage-1-tx''",
      THEN conjunct2, THEN conjunct2, THEN conjunct2, THEN conjunct1, THEN mp, OF conjI[OF P nP]]
  note kept = slot_conflict_by_instant[where s = ?P and u = ex_second_car_owner
      and req = "ex_create_req ex_monday ex_slot2" and now = 300 and hmac = ex_hmac
      and notification = ex_creation_notification,
      THEN conjunct2, THEN conjunct2, THEN conjunct2, THEN conjunct2, THEN mp, OF nP]
  from free fields have none: "existingBooking (ex_store []) 1 ex_monday ex_slot = None"
    by metis
  show ?thesis
    using refused ok none A owner driver nP accepted provider kept by blast
qed

section \<open>Where the handlers part from the specification\<close>

subsection \<open>Creation and the availability check\<close>

text \<open>
  Claim C2 does not hold of the code. \<open>createBooking\<close> looks for a booking of the same
  slot and for nothing else: on a Sunday, when the example garage is closed, at seven in
  the morning, before it opens, and for half an hour, with a service that takes an hour,
  \<open>checkAvailability\<close> answers that the slot is not available and \<open>createBooking\<close>
  inserts the booking all the same.
\<close>

theorem create_skips_hours_and_duration:
  "checkAvailability (ex_store []) (ex_avail_req ex_sunday ex_slot)
     = Inr (Unavailable ''Garage is closed on this day'')
   \<and> createBooking (ex_store []) ex_car_owner (ex_create_req ex_sunday ex_slot)
     = (Inr ((ex_booking Pending)\<lparr>b_bookingDate := ex_sunday\<rparr>),
        \<lparr>garages = [ex_garage_with 1 0], services = [ex_service],
         bookings = [(ex_booking Pending)\<lparr>b_bookingDate := ex_sunday\<rparr>],
         reviews = [], payments = [], users = []\<rparr>)
   \<and> checkAvailability (ex_store [])
       (ex_avail_req ex_monday \<lparr>ts_start = ''07:00'', ts_end = ''08:00''\<rparr>)
     = Inr (Unavailable ''Time slot is outside business hours'')
   \<and> createBooking (ex_store []) ex_car_owner
       (ex_create_req ex_monday \<lparr>ts_start = ''07:00'', ts_end = ''08:00''\<rparr>)
     = (Inr ((ex_booking Pending)\<lparr>b_timeSlot := \<lparr>ts_start = ''07:00'', ts_end = ''08:00''\<rparr>\<rparr>),
        \<lparr>garages = [ex_garage_with 1 0], services = [ex_service],
         bookings = [(ex_booking Pending)\<lparr>b_timeSlot := \<lparr>ts_start = ''07:00'', ts_end = ''08:00''\<rparr>\<rparr>],
         reviews = [], payments = [], users = []\<rparr>)
   \<and> checkAvailability (ex_store [])
       (ex_avail_req ex_monday \<lparr>ts_start = ''09:00'', ts_end = ''09:30''\<rparr>)
     = Inr (Unavailable ''Time slot duration (30min) is less than service duration (60min)'')
   \<and> createBooking (ex_store []) ex_car_owner
       (ex_create_req ex_monday \<lparr>ts_start = ''09:00'', ts_end = ''09:30''\<rparr>)
     = (Inr ((ex_booking Pending)\<lparr>b_timeSlot := \<lparr>ts_start = ''09:00'', ts_end = ''09:30''\<rparr>\<rparr>),
        \<lparr>garages = [ex_garage_with 1 0], services = [ex_service],
         bookings = [(ex_booking Pending)\<lparr>b_timeSlot := \<lparr>ts_start = ''09:00'', ts_end = ''09:30''\<rparr>\<rparr>],
         reviews = [], payments = [], users = []\<rparr>)"
  by code_simp

subsection \<open>The status history\<close>

lemma statusHistory_not_declared [simp]: "b_statusHistory (booking_persisted d) = None"
  by (simp add: booking_persisted_def strict_def bookingSchema_def)

text \<open>
  This holds of every transition and every cancellation: the booking that is stored has
  no history.
\<close>

lemma transition_stores_no_history:
  assumes "updateBookingStatus now s u (Some i) (Some target) reason = (Inr b', s')"
    and "findById b_id (bookings s) i = Some b"
    and "target \<noteq> status_name (b_status b)"
  shows "b_statusHistory b' = None \<and> findById b_id (bookings s') i = Some b'"
proof -
  from updateBookingStatus_pre[OF assms(1)] assms(2) obtain g
    where pre: "findById b_id (bookings s) i = Some b" "\<not> b_isDeleted b"
      "findById g_id (garages s) (b_garage b) = Some g"
      "g_owner g = pr_id u \<or> pr_role u = Admin" "target \<noteq> []"
    by auto
  have yes: "(status_name (b_status b), target) \<in> set spec_transitions"
    using update_invalid[OF pre assms(3), of now reason] assms(1) by auto
  from update_valid_result[OF pre assms(3) yes, of now reason] assms(1)
  have "b_statusHistory b' = None" by auto
  moreover from updateBookingStatus_success[OF assms(1)] assms(2,3)
  have "findById b_id (bookings s') i = Some b'" by auto
  ultimately show ?thesis by simp
qed

lemma cancellation_stores_no_history:
  assumes "cancelBooking now s u (Some i) reason = (Inr c, s')"
  shows "b_statusHistory c = None"
  using assms
  by (auto simp: cancelBooking_def Let_def split: option.splits if_splits)

text \<open>
  Claim C3 does not hold of the code. Both handlers push the entry onto the document
  they hold in memory, but \<open>bookingSchema\<close> declares no path \<open>statusHistory\<close>, so
  \<open>save\<close> writes the new status alone. After a transition and after a cancellation the
  stored booking has the new status and still no history.
\<close>

theorem status_history_is_not_stored:
  "push_history ((ex_booking Pending)\<lparr>b_status := Approved\<rparr>)
       \<lparr>sc_status = ''approved'', sc_changedBy = 10, sc_reason = ''Status changed to approved'',
        sc_changedAt = 1000\<rparr>
     = (ex_booking Approved)
         \<lparr>b_statusHistory :=
            Some [\<lparr>sc_status = ''approved'', sc_changedBy = 10,
                   sc_reason = ''Status changed to approved'', sc_changedAt = 1000\<rparr>]\<rparr>
   \<and> updateBookingStatus 1000 (ex_store [ex_booking Pending]) ex_garage_owner (Some 1)
       (Some ''approved'') None
     = (Inr (ex_booking Approved), ex_store [ex_booking Approved])
   \<and> cancelBooking 2000 (ex_store [ex_booking Approved]) ex_car_owner (Some 1) None
     = (Inr (ex_booking Cancelled), ex_store [ex_booking Cancelled])
   \<and> b_statusHistory (ex_booking Approved) = None
   \<and> b_statusHistory (ex_booking Cancelled) = None"
  by code_simp

subsection \<open>A notification delivered twice\<close>

text \<open>
  The manual verification looks at the payment's status first: for a payment that is
  already completed it writes nothing.
\<close>

lemma verifyPayment_completed_unchanged:
  assumes "chapa tx_ref = Inr ''success''"
    and "List.find (\<lambda>x. p_transactionId x = Some tx_ref) (payments s) = Some p"
    and "p_status p = PCompleted"
  shows "verifyPayment chapa now s tx_ref = (Inr p, s)"
  using assms by (simp add: verifyPayment_def)

text \<open>
  The webhook does not look at the payment's status. On a store that already holds a
  payment of type \<open>booking\<close>, a second delivery of the settled notification stamps
  the payment with a new time of payment and sets the booking, which has moved on to
  \<open>in_progress\<close>, back to \<open>approved\<close>; \<open>isPaid\<close> is not a path of the booking
  schema and is not stored by either delivery. No handler modelled here stores a payment
  of type \<open>booking\<close>, so the store of this trace is given, not produced.
\<close>

lemma webhook_does_not_recheck_status:
  "handleChapaWebhook ex_hmac 1000
       (ex_pay_store ex_garage [ex_booking Pending] (ex_payment PPending None None))
       (ex_notification ''success'')
     = (Inr (), ex_pay_store ex_garage [ex_booking Approved]
                  (ex_payment PCompleted (Some 1000) (Some (ex_payload ''success''))))
   \<and> b_isPaid (ex_booking Approved) = None
   \<and> handleChapaWebhook ex_hmac 2000
       (ex_pay_store ex_garage [ex_booking InProgress]
          (ex_payment PCompleted (Some 1000) (Some (ex_payload ''success''))))
       (ex_notification ''success'')
     = (Inr (), ex_pay_store ex_garage [ex_booking Approved]
                  (ex_payment PCompleted (Some 2000) (Some (ex_payload ''success''))))"
  by code_simp

subsection \<open>The route of the availability check\<close>

text \<open>
  Whatever \<open>protect\<close> refuses, it refuses with status 401, and the booking router
  answers every request that \<open>protect\<close> refuses with that refusal, whatever its method
  and path.
\<close>

lemma protect_refuses_with_401: "protect jwt_verify us h = Inl e \<Longrightarrow> fst e = 401"
  by (auto simp: protect_def split: option.splits)

lemma booking_routes_behind_protect:
  "protect jwt_verify us (rq_authorization req) = Inl e \<Longrightarrow>
   dispatch jwt_verify us booking_routes req None = Inl e"
  by (simp add: booking_routes_def run_middleware_def)

lemma booking_routes_need_token:
  "bearer_token (rq_authorization req) = None \<Longrightarrow>
   dispatch jwt_verify us booking_routes req None = Inl (401, ''Not authorized, no token'')"
  by (simp add: booking_routes_def run_middleware_def protect_def)

text \<open>
  Claim C9 does not hold of the code for the availability check. The router's first
  layer is \<open>protect\<close>, so a request without a token is turned away before any route is
  looked at, \<open>POST /check-availability\<close> like every other; the handler that the
  controller documents as public is not reached.
\<close>

theorem check_availability_needs_token:
  "dispatch jwt_verify us booking_routes
       \<lparr>rq_method = POST, rq_path = [''check-availability''], rq_authorization = None\<rparr> None
     = Inl (401, ''Not authorized, no token'')"
  by (simp add: booking_routes_def run_middleware_def protect_def bearer_token_def)

end
